theory Spec2Isabelle
  imports Complex_Main "HOL-Library.Monad_Syntax"
begin

section \<open>SQL values and three-valued logic\<close>

text \<open>
  The merges of \<^verbatim>\<open>rds_to_redshift_etl.py\<close> and \<^verbatim>\<open>s3_telemetry_to_redshift.py\<close>
  are SQL statements. A nullable column is an \<open>option\<close> (\<open>None\<close> is NULL); a truth
  value of SQL is a \<open>bool option\<close> (\<open>None\<close> is UNKNOWN). A WHERE or ON clause keeps a
  row only when its condition is TRUE. A table is the list of its rows; an INSERT
  appends. Dates are day numbers, so that \<^verbatim>\<open>CURRENT_DATE - 1\<close> is a subtraction.
  A column keeps its name, after a prefix for its table: \<open>ss_\<close> and \<open>ds_\<close> for
  \<^verbatim>\<open>staging_surgeons\<close> and \<^verbatim>\<open>dim_surgeons\<close>, \<open>sr_\<close> and \<open>dr_\<close> for the robots,
  \<open>df_\<close> for \<^verbatim>\<open>dim_facilities\<close>, \<open>sp_\<close> and \<open>fp_\<close> for the procedures, \<open>st_\<close> and
  \<open>ft_\<close> for the telemetry. The staging tables are taken as the COPY has loaded them.
\<close>

definition sql_eq :: "'a option \<Rightarrow> 'a option \<Rightarrow> bool option" where
  "sql_eq a b = (case a of None \<Rightarrow> None | Some x \<Rightarrow> (case b of None \<Rightarrow> None | Some y \<Rightarrow> Some (x = y)))"

fun sql_not :: "bool option \<Rightarrow> bool option" where
  "sql_not None = None"
| "sql_not (Some b) = Some (\<not> b)"

fun sql_and :: "bool option \<Rightarrow> bool option \<Rightarrow> bool option" where
  "sql_and (Some False) q = Some False"
| "sql_and p (Some False) = Some False"
| "sql_and (Some True) (Some True) = Some True"
| "sql_and p q = None"

fun sql_or :: "bool option \<Rightarrow> bool option \<Rightarrow> bool option" where
  "sql_or (Some True) q = Some True"
| "sql_or p (Some True) = Some True"
| "sql_or (Some False) (Some False) = Some False"
| "sql_or p q = None"

definition sql_true :: "bool option \<Rightarrow> bool" where
  "sql_true c = (c = Some True)"

text \<open>\<^verbatim>\<open>x IN (SELECT ...)\<close>: the disjunction of the comparisons with every row of the
  subquery, FALSE on an empty subquery.\<close>

definition sql_in :: "'a option \<Rightarrow> 'a option list \<Rightarrow> bool option" where
  "sql_in x rows = foldr sql_or (map (sql_eq x) rows) (Some False)"

text \<open>Row values of two columns: \<^verbatim>\<open>(a, b) = (c, d)\<close> is \<^verbatim>\<open>a = c AND b = d\<close>,
  \<^verbatim>\<open>(a, b) <> (c, d)\<close> its negation, and \<^verbatim>\<open>(a, b) IN (SELECT c, d ...)\<close> the
  disjunction over the subquery's rows.\<close>

definition sql_row_eq :: "'a option \<times> 'b option \<Rightarrow> 'a option \<times> 'b option \<Rightarrow> bool option" where
  "sql_row_eq l r = sql_and (sql_eq (fst l) (fst r)) (sql_eq (snd l) (snd r))"

definition sql_row_ne :: "'a option \<times> 'b option \<Rightarrow> 'a option \<times> 'b option \<Rightarrow> bool option" where
  "sql_row_ne l r = sql_not (sql_row_eq l r)"

definition sql_row_in :: "'a option \<times> 'b option \<Rightarrow> ('a option \<times> 'b option) list \<Rightarrow> bool option" where
  "sql_row_in x rows = foldr sql_or (map (sql_row_eq x) rows) (Some False)"

text \<open>\<^verbatim>\<open>s LEFT JOIN d ON c\<close> for one row \<open>s\<close>: every row of \<open>d\<close> whose ON
  condition is TRUE, and one all-NULL row (\<open>None\<close>) when there is none.\<close>

definition left_join :: "('d \<Rightarrow> bool option) \<Rightarrow> 'd list \<Rightarrow> 'd option list" where
  "left_join on ds = (case filter (\<lambda>d. sql_true (on d)) ds of [] \<Rightarrow> [None] | m # ms \<Rightarrow> map Some (m # ms))"

text \<open>\<^verbatim>\<open>s INNER JOIN d ON c\<close> for one row \<open>s\<close>: the rows of \<open>d\<close> whose ON condition
  is TRUE, none when there is none.\<close>

definition inner_join :: "('d \<Rightarrow> bool option) \<Rightarrow> 'd list \<Rightarrow> 'd list" where
  "inner_join on ds = filter (\<lambda>d. sql_true (on d)) ds"

text \<open>A column of the nullable side of a left join.\<close>

definition col :: "('d \<Rightarrow> 'a option) \<Rightarrow> 'd option \<Rightarrow> 'a option" where
  "col f d = (case d of None \<Rightarrow> None | Some r \<Rightarrow> f r)"

text \<open>Modelled from the spec: the table declarations are not among the sources. The
  surrogate key of a dimension or fact row is "assigned by the warehouse, opaque": an
  identity column, never NULL, here the next number above every key of the table, one
  per inserted row in the order of insertion.\<close>

definition next_key :: "nat list \<Rightarrow> nat" where
  "next_key ks = Suc (foldr max ks 0)"

fun assign_keys :: "nat \<Rightarrow> (nat \<Rightarrow> 'r) list \<Rightarrow> 'r list" where
  "assign_keys k [] = []"
| "assign_keys k (mk # rows) = mk k # assign_keys (Suc k) rows"

section \<open>The surgeon dimension\<close>

text \<open>\<^verbatim>\<open>staging_surgeons\<close>, as \<^verbatim>\<open>CREATE TEMP TABLE\<close> declares it, after the COPY
  (\<^verbatim>\<open>EMPTYASNULL\<close>: an empty field is NULL).\<close>

record staging_surgeon =
  ss_surgeon_id :: "string option"
  ss_surgeon_name :: "string option"
  ss_specialization :: "string option"
  ss_years_experience :: "int option"
  ss_certification_level :: "string option"
  ss_effective_date :: "int option"

text \<open>\<^verbatim>\<open>dim_surgeons\<close>: the surrogate key and the columns the INSERT lists.\<close>

record dim_surgeon =
  ds_surgeon_key :: nat
  ds_surgeon_id :: "string option"
  ds_surgeon_name :: "string option"
  ds_specialization :: "string option"
  ds_years_experience :: "int option"
  ds_certification_level :: "string option"
  ds_effective_date :: "int option"
  ds_expiration_date :: "int option"
  ds_is_current :: "bool option"

text \<open>The UPDATE of \<^verbatim>\<open>load_dimension_surgeons\<close> ("Expire changed records"). Both
  subqueries range over the whole staging table: the second one is not correlated with
  the surgeon of the row.\<close>

definition expire_surgeon_where :: "staging_surgeon list \<Rightarrow> dim_surgeon \<Rightarrow> bool option" where
  "expire_surgeon_where staging d =
     sql_and (sql_and (sql_eq (ds_is_current d) (Some True))
                      (sql_in (ds_surgeon_id d) (map ss_surgeon_id staging)))
             (sql_not (sql_row_in (ds_surgeon_name d, ds_specialization d)
                         (map (\<lambda>s. (ss_surgeon_name s, ss_specialization s)) staging)))"

definition close_surgeon :: "int \<Rightarrow> dim_surgeon \<Rightarrow> dim_surgeon" where
  "close_surgeon current_date d =
     d\<lparr>ds_expiration_date := Some (current_date - 1), ds_is_current := Some False\<rparr>"

definition expire_surgeons :: "int \<Rightarrow> staging_surgeon list \<Rightarrow> dim_surgeon list \<Rightarrow> dim_surgeon list" where
  "expire_surgeons current_date staging tab =
     map (\<lambda>d. if sql_true (expire_surgeon_where staging d) then close_surgeon current_date d else d) tab"

text \<open>The INSERT ("Insert new and changed records"): the SELECT over
  \<^verbatim>\<open>staging_surgeons s LEFT JOIN dim_surgeons d\<close>, read after the UPDATE.\<close>

definition surgeon_join_on :: "staging_surgeon \<Rightarrow> dim_surgeon \<Rightarrow> bool option" where
  "surgeon_join_on s d =
     sql_and (sql_eq (ss_surgeon_id s) (ds_surgeon_id d)) (sql_eq (ds_is_current d) (Some True))"

definition surgeon_insert_where :: "staging_surgeon \<Rightarrow> dim_surgeon option \<Rightarrow> bool option" where
  "surgeon_insert_where s d =
     sql_or (Some (map_option ds_surgeon_key d = None))
            (sql_row_ne (col ds_surgeon_name d, col ds_specialization d)
                        (ss_surgeon_name s, ss_specialization s))"

definition new_surgeon_row :: "staging_surgeon \<Rightarrow> nat \<Rightarrow> dim_surgeon" where
  "new_surgeon_row s k =
     \<lparr>ds_surgeon_key = k,
      ds_surgeon_id = ss_surgeon_id s,
      ds_surgeon_name = ss_surgeon_name s,
      ds_specialization = ss_specialization s,
      ds_years_experience = ss_years_experience s,
      ds_certification_level = ss_certification_level s,
      ds_effective_date = ss_effective_date s,
      ds_expiration_date = None,
      ds_is_current = Some True\<rparr>"

definition surgeon_rows_of :: "dim_surgeon list \<Rightarrow> staging_surgeon \<Rightarrow> (nat \<Rightarrow> dim_surgeon) list" where
  "surgeon_rows_of tab s =
     map (\<lambda>d. new_surgeon_row s)
         (filter (\<lambda>d. sql_true (surgeon_insert_where s d)) (left_join (surgeon_join_on s) tab))"

definition surgeons_to_insert :: "staging_surgeon list \<Rightarrow> dim_surgeon list \<Rightarrow> (nat \<Rightarrow> dim_surgeon) list" where
  "surgeons_to_insert staging tab = concat (map (surgeon_rows_of tab) staging)"

definition insert_surgeons :: "staging_surgeon list \<Rightarrow> dim_surgeon list \<Rightarrow> dim_surgeon list" where
  "insert_surgeons staging tab =
     tab @ assign_keys (next_key (map ds_surgeon_key tab)) (surgeons_to_insert staging tab)"

text \<open>\<^verbatim>\<open>load_dimension_surgeons\<close> from the staged rows on: nothing is run when there
  is no row to export (\<^verbatim>\<open>return 0\<close>); otherwise the UPDATE, then the INSERT, and the
  row count of the last statement.\<close>

definition load_dimension_surgeons ::
  "int \<Rightarrow> staging_surgeon list \<Rightarrow> dim_surgeon list \<Rightarrow> dim_surgeon list \<times> nat" where
  "load_dimension_surgeons current_date surgeons tab =
     (if surgeons = [] then (tab, 0)
      else let expired = expire_surgeons current_date surgeons tab;
               loaded = insert_surgeons surgeons expired
           in (loaded, length loaded - length expired))"

text \<open>The rows of a surgeon that are current.\<close>

definition current_surgeons :: "string \<Rightarrow> dim_surgeon list \<Rightarrow> dim_surgeon list" where
  "current_surgeons sid tab =
     filter (\<lambda>d. ds_surgeon_id d = Some sid \<and> ds_is_current d = Some True) tab"

section \<open>The robot dimension\<close>

text \<open>\<^verbatim>\<open>dim_facilities\<close> is only read: the key, the natural key and the flag are the
  columns the joins use.\<close>

record dim_facility =
  df_facility_key :: nat
  df_facility_id :: "string option"
  df_is_current :: "bool option"

record staging_robot =
  sr_robot_id :: "string option"
  sr_robot_serial_number :: "string option"
  sr_robot_model :: "string option"
  sr_manufacturer :: "string option"
  sr_facility_id :: "string option"
  sr_install_date :: "int option"
  sr_software_version :: "string option"
  sr_hardware_revision :: "string option"
  sr_status :: "string option"
  sr_last_maintenance_date :: "int option"
  sr_total_procedures_count :: "int option"
  sr_total_operating_hours :: "rat option"
  sr_effective_date :: "int option"

record dim_robot =
  dr_robot_key :: nat
  dr_robot_id :: "string option"
  dr_robot_serial_number :: "string option"
  dr_robot_model :: "string option"
  dr_manufacturer :: "string option"
  dr_facility_key :: "nat option"
  dr_install_date :: "int option"
  dr_software_version :: "string option"
  dr_hardware_revision :: "string option"
  dr_status :: "string option"
  dr_last_maintenance_date :: "int option"
  dr_total_procedures_count :: "int option"
  dr_total_operating_hours :: "rat option"
  dr_effective_date :: "int option"
  dr_expiration_date :: "int option"
  dr_is_current :: "bool option"

text \<open>The UPDATE of \<^verbatim>\<open>load_dimension_robots\<close>: every current row of a staged robot
  is closed; no attribute is compared.\<close>

definition expire_robot_where :: "staging_robot list \<Rightarrow> dim_robot \<Rightarrow> bool option" where
  "expire_robot_where staging d =
     sql_and (sql_eq (dr_is_current d) (Some True))
             (sql_in (dr_robot_id d) (map sr_robot_id staging))"

definition close_robot :: "int \<Rightarrow> dim_robot \<Rightarrow> dim_robot" where
  "close_robot current_date d =
     d\<lparr>dr_expiration_date := Some (current_date - 1), dr_is_current := Some False\<rparr>"

definition expire_robots :: "int \<Rightarrow> staging_robot list \<Rightarrow> dim_robot list \<Rightarrow> dim_robot list" where
  "expire_robots current_date staging tab =
     map (\<lambda>d. if sql_true (expire_robot_where staging d) then close_robot current_date d else d) tab"

text \<open>The INSERT: every staged row, once per current facility row it joins (once,
  with a NULL facility key, when it joins none).\<close>

definition facility_join_on :: "string option \<Rightarrow> dim_facility \<Rightarrow> bool option" where
  "facility_join_on fid f =
     sql_and (sql_eq fid (df_facility_id f)) (sql_eq (df_is_current f) (Some True))"

definition new_robot_row :: "staging_robot \<Rightarrow> dim_facility option \<Rightarrow> nat \<Rightarrow> dim_robot" where
  "new_robot_row s f k =
     \<lparr>dr_robot_key = k,
      dr_robot_id = sr_robot_id s,
      dr_robot_serial_number = sr_robot_serial_number s,
      dr_robot_model = sr_robot_model s,
      dr_manufacturer = sr_manufacturer s,
      dr_facility_key = map_option df_facility_key f,
      dr_install_date = sr_install_date s,
      dr_software_version = sr_software_version s,
      dr_hardware_revision = sr_hardware_revision s,
      dr_status = sr_status s,
      dr_last_maintenance_date = sr_last_maintenance_date s,
      dr_total_procedures_count = sr_total_procedures_count s,
      dr_total_operating_hours = sr_total_operating_hours s,
      dr_effective_date = sr_effective_date s,
      dr_expiration_date = None,
      dr_is_current = Some True\<rparr>"

definition robot_rows_of :: "dim_facility list \<Rightarrow> staging_robot \<Rightarrow> (nat \<Rightarrow> dim_robot) list" where
  "robot_rows_of facilities s =
     map (new_robot_row s) (left_join (facility_join_on (sr_facility_id s)) facilities)"

definition robots_to_insert :: "dim_facility list \<Rightarrow> staging_robot list \<Rightarrow> (nat \<Rightarrow> dim_robot) list" where
  "robots_to_insert facilities staging = concat (map (robot_rows_of facilities) staging)"

definition insert_robots :: "dim_facility list \<Rightarrow> staging_robot list \<Rightarrow> dim_robot list \<Rightarrow> dim_robot list" where
  "insert_robots facilities staging tab =
     tab @ assign_keys (next_key (map dr_robot_key tab)) (robots_to_insert facilities staging)"

definition load_dimension_robots ::
  "int \<Rightarrow> dim_facility list \<Rightarrow> staging_robot list \<Rightarrow> dim_robot list \<Rightarrow> dim_robot list \<times> nat" where
  "load_dimension_robots current_date facilities robots tab =
     (if robots = [] then (tab, 0)
      else let expired = expire_robots current_date robots tab;
               loaded = insert_robots facilities robots expired
           in (loaded, length loaded - length expired))"

definition current_robots :: "string \<Rightarrow> dim_robot list \<Rightarrow> dim_robot list" where
  "current_robots rid tab =
     filter (\<lambda>d. dr_robot_id d = Some rid \<and> dr_is_current d = Some True) tab"

section \<open>The procedure facts\<close>

text \<open>\<^verbatim>\<open>staging_procedures\<close>, as \<^verbatim>\<open>CREATE TEMP TABLE\<close> declares it, and
  \<^verbatim>\<open>fact_procedures\<close>: its surrogate key (which the telemetry load reads) and the
  columns the INSERT lists.\<close>

record staging_procedure =
  sp_procedure_id :: "string option"
  sp_robot_id :: "string option"
  sp_surgeon_id :: "string option"
  sp_facility_id :: "string option"
  sp_start_date_key :: "int option"
  sp_start_time_key :: "int option"
  sp_end_date_key :: "int option"
  sp_end_time_key :: "int option"
  sp_procedure_type :: "string option"
  sp_procedure_category :: "string option"
  sp_patient_id :: "string option"
  sp_patient_age :: "int option"
  sp_patient_gender :: "string option"
  sp_duration_minutes :: "int option"
  sp_complexity_score :: "rat option"
  sp_success_status :: "string option"
  sp_blood_loss_ml :: "int option"
  sp_complication_level :: "string option"
  sp_hospital_stay_days :: "int option"
  sp_patient_satisfaction_score :: "rat option"
  sp_readmission_30day :: "bool option"
  sp_status :: "string option"

record fact_procedure =
  fp_procedure_key :: nat
  fp_procedure_id :: "string option"
  fp_robot_key :: "nat option"
  fp_surgeon_key :: "nat option"
  fp_facility_key :: "nat option"
  fp_start_date_key :: "int option"
  fp_start_time_key :: "int option"
  fp_end_date_key :: "int option"
  fp_end_time_key :: "int option"
  fp_procedure_type :: "string option"
  fp_procedure_category :: "string option"
  fp_patient_id :: "string option"
  fp_patient_age :: "int option"
  fp_patient_gender :: "string option"
  fp_duration_minutes :: "int option"
  fp_complexity_score :: "rat option"
  fp_success_status :: "string option"
  fp_blood_loss_ml :: "int option"
  fp_complication_level :: "string option"
  fp_hospital_stay_days :: "int option"
  fp_patient_satisfaction_score :: "rat option"
  fp_readmission_30day :: "bool option"
  fp_status :: "string option"

text \<open>The two time keys of the extraction query:
  \<^verbatim>\<open>EXTRACT(HOUR FROM t)::INTEGER * 10000 + EXTRACT(MINUTE FROM t)::INTEGER * 100\<close>
  over a nullable timestamp. A timestamp is its calendar fields.\<close>

record datetime =
  year :: int
  month :: int
  day :: int
  hour :: int
  minute :: int
  second :: int

definition sql_extract :: "(datetime \<Rightarrow> int) \<Rightarrow> datetime option \<Rightarrow> int option" where
  "sql_extract field t = map_option field t"

definition sql_times :: "int option \<Rightarrow> int option \<Rightarrow> int option" where
  "sql_times a b = (case a of None \<Rightarrow> None | Some x \<Rightarrow> (case b of None \<Rightarrow> None | Some y \<Rightarrow> Some (x * y)))"

definition sql_plus :: "int option \<Rightarrow> int option \<Rightarrow> int option" where
  "sql_plus a b = (case a of None \<Rightarrow> None | Some x \<Rightarrow> (case b of None \<Rightarrow> None | Some y \<Rightarrow> Some (x + y)))"

definition extract_time_key :: "datetime option \<Rightarrow> int option" where
  "extract_time_key t =
     sql_plus (sql_times (sql_extract hour t) (Some 10000))
              (sql_times (sql_extract minute t) (Some 100))"

text \<open>The INSERT of \<^verbatim>\<open>load_fact_procedures\<close>: the staged rows left-joined with the
  current rows of the three dimensions, without those whose procedure is in
  \<^verbatim>\<open>fact_procedures\<close> already. The subquery reads the table as it is before the
  statement, and its condition is on the staged row alone, so the rows it excludes are
  taken out before the joins.\<close>

definition robot_join_on :: "staging_procedure \<Rightarrow> dim_robot \<Rightarrow> bool option" where
  "robot_join_on s r =
     sql_and (sql_eq (sp_robot_id s) (dr_robot_id r)) (sql_eq (dr_is_current r) (Some True))"

definition surgeon_fact_join_on :: "staging_procedure \<Rightarrow> dim_surgeon \<Rightarrow> bool option" where
  "surgeon_fact_join_on s sg =
     sql_and (sql_eq (sp_surgeon_id s) (ds_surgeon_id sg)) (sql_eq (ds_is_current sg) (Some True))"

definition procedure_exists :: "fact_procedure list \<Rightarrow> staging_procedure \<Rightarrow> bool" where
  "procedure_exists facts s =
     list_ex (\<lambda>fp. sql_true (sql_eq (fp_procedure_id fp) (sp_procedure_id s))) facts"

definition new_procedure_row ::
  "staging_procedure \<Rightarrow> dim_robot option \<Rightarrow> dim_surgeon option \<Rightarrow> dim_facility option \<Rightarrow> nat \<Rightarrow> fact_procedure" where
  "new_procedure_row s r sg f k =
     \<lparr>fp_procedure_key = k,
      fp_procedure_id = sp_procedure_id s,
      fp_robot_key = map_option dr_robot_key r,
      fp_surgeon_key = map_option ds_surgeon_key sg,
      fp_facility_key = map_option df_facility_key f,
      fp_start_date_key = sp_start_date_key s,
      fp_start_time_key = sp_start_time_key s,
      fp_end_date_key = sp_end_date_key s,
      fp_end_time_key = sp_end_time_key s,
      fp_procedure_type = sp_procedure_type s,
      fp_procedure_category = sp_procedure_category s,
      fp_patient_id = sp_patient_id s,
      fp_patient_age = sp_patient_age s,
      fp_patient_gender = sp_patient_gender s,
      fp_duration_minutes = sp_duration_minutes s,
      fp_complexity_score = sp_complexity_score s,
      fp_success_status = sp_success_status s,
      fp_blood_loss_ml = sp_blood_loss_ml s,
      fp_complication_level = sp_complication_level s,
      fp_hospital_stay_days = sp_hospital_stay_days s,
      fp_patient_satisfaction_score = sp_patient_satisfaction_score s,
      fp_readmission_30day = sp_readmission_30day s,
      fp_status = sp_status s\<rparr>"

definition procedure_rows_of ::
  "dim_robot list \<Rightarrow> dim_surgeon list \<Rightarrow> dim_facility list \<Rightarrow> staging_procedure \<Rightarrow> (nat \<Rightarrow> fact_procedure) list" where
  "procedure_rows_of robots surgeons facilities s =
     concat (map (\<lambda>r. concat (map (\<lambda>sg. map (\<lambda>f. new_procedure_row s r sg f)
                                            (left_join (facility_join_on (sp_facility_id s)) facilities))
                                  (left_join (surgeon_fact_join_on s) surgeons)))
                 (left_join (robot_join_on s) robots))"

definition procedures_to_insert ::
  "dim_robot list \<Rightarrow> dim_surgeon list \<Rightarrow> dim_facility list \<Rightarrow> fact_procedure list \<Rightarrow>
   staging_procedure list \<Rightarrow> (nat \<Rightarrow> fact_procedure) list" where
  "procedures_to_insert robots surgeons facilities facts staging =
     concat (map (procedure_rows_of robots surgeons facilities)
                 (filter (\<lambda>s. \<not> procedure_exists facts s) staging))"

definition load_fact_procedures ::
  "dim_robot list \<Rightarrow> dim_surgeon list \<Rightarrow> dim_facility list \<Rightarrow> staging_procedure list \<Rightarrow>
   fact_procedure list \<Rightarrow> fact_procedure list \<times> nat" where
  "load_fact_procedures robots surgeons facilities procedures facts =
     (if procedures = [] then (facts, 0)
      else let inserted = assign_keys (next_key (map fp_procedure_key facts))
                            (procedures_to_insert robots surgeons facilities facts procedures)
           in (facts @ inserted, length inserted))"

section \<open>The telemetry facts\<close>

text \<open>\<^verbatim>\<open>staging_telemetry\<close>, as \<^verbatim>\<open>CREATE TEMP TABLE\<close> declares it, and the columns
  of \<^verbatim>\<open>fact_procedure_telemetry\<close> that the INSERT lists. A timestamp column is
  compared for equality only and stays the text it was loaded from.\<close>

record staging_telemetry =
  st_procedure_id :: "string option"
  st_timestamp_key :: "int option"
  st_sample_timestamp :: "string option"
  st_arm_position_x :: "rat option"
  st_arm_position_y :: "rat option"
  st_arm_position_z :: "rat option"
  st_arm_rotation_x :: "rat option"
  st_arm_rotation_y :: "rat option"
  st_arm_rotation_z :: "rat option"
  st_force_feedback :: "rat option"
  st_tool_type :: "string option"
  st_tool_active :: "bool option"
  st_camera_zoom :: "rat option"
  st_lighting_level :: "int option"
  st_system_temperature :: "rat option"
  st_motor_current :: "rat option"
  st_network_latency_ms :: "int option"
  st_video_fps :: "int option"

record fact_telemetry =
  ft_procedure_key :: "nat option"
  ft_timestamp_key :: "int option"
  ft_sample_timestamp :: "string option"
  ft_arm_position_x :: "rat option"
  ft_arm_position_y :: "rat option"
  ft_arm_position_z :: "rat option"
  ft_arm_rotation_x :: "rat option"
  ft_arm_rotation_y :: "rat option"
  ft_arm_rotation_z :: "rat option"
  ft_force_feedback :: "rat option"
  ft_tool_type :: "string option"
  ft_tool_active :: "bool option"
  ft_camera_zoom :: "rat option"
  ft_lighting_level :: "int option"
  ft_system_temperature :: "rat option"
  ft_motor_current :: "rat option"
  ft_network_latency_ms :: "int option"
  ft_video_fps :: "int option"

text \<open>The INSERT of \<^verbatim>\<open>load_telemetry_to_redshift\<close>: the staged rows inner-joined
  with \<^verbatim>\<open>fact_procedures\<close> on the procedure id, without the pairs whose procedure key
  and sample timestamp are in \<^verbatim>\<open>fact_procedure_telemetry\<close> already.\<close>

definition telemetry_join_on :: "staging_telemetry \<Rightarrow> fact_procedure \<Rightarrow> bool option" where
  "telemetry_join_on st fp = sql_eq (st_procedure_id st) (fp_procedure_id fp)"

definition telemetry_exists :: "fact_telemetry list \<Rightarrow> staging_telemetry \<Rightarrow> fact_procedure \<Rightarrow> bool" where
  "telemetry_exists telemetry st fp =
     list_ex (\<lambda>fpt. sql_true (sql_and (sql_eq (ft_procedure_key fpt) (Some (fp_procedure_key fp)))
                                       (sql_eq (ft_sample_timestamp fpt) (st_sample_timestamp st))))
             telemetry"

definition new_telemetry_row :: "staging_telemetry \<Rightarrow> fact_procedure \<Rightarrow> fact_telemetry" where
  "new_telemetry_row st fp =
     \<lparr>ft_procedure_key = Some (fp_procedure_key fp),
      ft_timestamp_key = st_timestamp_key st,
      ft_sample_timestamp = st_sample_timestamp st,
      ft_arm_position_x = st_arm_position_x st,
      ft_arm_position_y = st_arm_position_y st,
      ft_arm_position_z = st_arm_position_z st,
      ft_arm_rotation_x = st_arm_rotation_x st,
      ft_arm_rotation_y = st_arm_rotation_y st,
      ft_arm_rotation_z = st_arm_rotation_z st,
      ft_force_feedback = st_force_feedback st,
      ft_tool_type = st_tool_type st,
      ft_tool_active = st_tool_active st,
      ft_camera_zoom = st_camera_zoom st,
      ft_lighting_level = st_lighting_level st,
      ft_system_temperature = st_system_temperature st,
      ft_motor_current = st_motor_current st,
      ft_network_latency_ms = st_network_latency_ms st,
      ft_video_fps = st_video_fps st\<rparr>"

definition telemetry_rows_of ::
  "fact_procedure list \<Rightarrow> fact_telemetry list \<Rightarrow> staging_telemetry \<Rightarrow> fact_telemetry list" where
  "telemetry_rows_of procedures telemetry st =
     map (new_telemetry_row st)
         (filter (\<lambda>fp. \<not> telemetry_exists telemetry st fp)
                 (inner_join (telemetry_join_on st) procedures))"

definition telemetry_to_insert ::
  "fact_procedure list \<Rightarrow> fact_telemetry list \<Rightarrow> staging_telemetry list \<Rightarrow> fact_telemetry list" where
  "telemetry_to_insert procedures telemetry staging =
     concat (map (telemetry_rows_of procedures telemetry) staging)"

definition load_telemetry_to_redshift ::
  "fact_procedure list \<Rightarrow> staging_telemetry list \<Rightarrow> fact_telemetry list \<Rightarrow> fact_telemetry list \<times> nat" where
  "load_telemetry_to_redshift procedures staging telemetry =
     (let inserted = telemetry_to_insert procedures telemetry staging
      in (telemetry @ inserted, length inserted))"

section \<open>The telemetry transform\<close>

text \<open>A parsed JSON document, as \<^verbatim>\<open>json.loads\<close> returns it: \<open>JNull\<close> is Python's
  \<^verbatim>\<open>None\<close>, \<open>JObj\<close> the items of a dict (one per key) and \<open>JArr\<close> a list. A float
  is the rational it denotes. \<open>truthy\<close> is Python's truth value of each.\<close>

datatype json =
    JNull
  | JBool bool
  | JInt int
  | JFloat rat
  | JStr string
  | JArr "json list"
  | JObj "(string \<times> json) list"

fun truthy :: "json \<Rightarrow> bool" where
  "truthy JNull = False"
| "truthy (JBool b) = b"
| "truthy (JInt n) = (n \<noteq> 0)"
| "truthy (JFloat x) = (x \<noteq> 0)"
| "truthy (JStr s) = (s \<noteq> [])"
| "truthy (JArr xs) = (xs \<noteq> [])"
| "truthy (JObj kvs) = (kvs \<noteq> [])"

text \<open>\<^verbatim>\<open>d.get(k)\<close>: the value, \<^verbatim>\<open>None\<close> for a key that is absent.\<close>

definition dict_get :: "(string \<times> json) list \<Rightarrow> string \<Rightarrow> json" where
  "dict_get d k = (case map_of d k of None \<Rightarrow> JNull | Some v \<Rightarrow> v)"

text \<open>\<^verbatim>\<open>d.get(g, {}).get(k)\<close>: an absent group is the empty dict; a group that is
  not a dict has no \<^verbatim>\<open>get\<close>, which raises AttributeError (\<open>None\<close> here).\<close>

definition nested_get :: "(string \<times> json) list \<Rightarrow> string \<Rightarrow> string \<Rightarrow> json option" where
  "nested_get d g k =
     (case map_of d g of
        None \<Rightarrow> Some JNull
      | Some (JObj grp) \<Rightarrow> Some (dict_get grp k)
      | Some other \<Rightarrow> None)"

text \<open>\<^verbatim>\<open>timestamp.replace('Z', '+00:00')\<close>: every occurrence is replaced.\<close>

definition replace_Z :: "string \<Rightarrow> string" where
  "replace_Z timestamp = concat (map (\<lambda>c. if c = CHR ''Z'' then ''+00:00'' else [c]) timestamp)"

text \<open>The dict \<^verbatim>\<open>transformed\<close>: the values are copied as they are in the input,
  but for the time key (an integer), the sample timestamp and the tool flag (strings).\<close>

record telemetry_row =
  t_procedure_id :: json
  t_timestamp_key :: int
  t_sample_timestamp :: string
  t_arm_position_x :: json
  t_arm_position_y :: json
  t_arm_position_z :: json
  t_arm_rotation_x :: json
  t_arm_rotation_y :: json
  t_arm_rotation_z :: json
  t_force_feedback :: json
  t_tool_type :: json
  t_tool_active :: string
  t_camera_zoom :: json
  t_lighting_level :: json
  t_system_temperature :: json
  t_motor_current :: json
  t_network_latency_ms :: json
  t_video_fps :: json

text \<open>The dict display of \<^verbatim>\<open>transform_telemetry_record\<close>, once the timestamp is
  parsed. Any exception in it ends in the \<^verbatim>\<open>except\<close> clause, which returns
  \<^verbatim>\<open>None\<close>.\<close>

definition build_row :: "(string \<times> json) list \<Rightarrow> string \<Rightarrow> datetime \<Rightarrow> telemetry_row option" where
  "build_row d timestamp ts_obj =
     do {
       arm_position_x \<leftarrow> nested_get d ''arm_position'' ''x'';
       arm_position_y \<leftarrow> nested_get d ''arm_position'' ''y'';
       arm_position_z \<leftarrow> nested_get d ''arm_position'' ''z'';
       arm_rotation_x \<leftarrow> nested_get d ''arm_rotation'' ''x'';
       arm_rotation_y \<leftarrow> nested_get d ''arm_rotation'' ''y'';
       arm_rotation_z \<leftarrow> nested_get d ''arm_rotation'' ''z'';
       system_temperature \<leftarrow> nested_get d ''system_metrics'' ''temperature'';
       motor_current \<leftarrow> nested_get d ''system_metrics'' ''motor_current'';
       network_latency_ms \<leftarrow> nested_get d ''system_metrics'' ''network_latency_ms'';
       video_fps \<leftarrow> nested_get d ''system_metrics'' ''video_fps'';
       Some \<lparr>t_procedure_id = dict_get d ''procedure_id'',
             t_timestamp_key = hour ts_obj * 10000 + minute ts_obj * 100,
             t_sample_timestamp = timestamp,
             t_arm_position_x = arm_position_x,
             t_arm_position_y = arm_position_y,
             t_arm_position_z = arm_position_z,
             t_arm_rotation_x = arm_rotation_x,
             t_arm_rotation_y = arm_rotation_y,
             t_arm_rotation_z = arm_rotation_z,
             t_force_feedback = dict_get d ''force_feedback'',
             t_tool_type = dict_get d ''tool_type'',
             t_tool_active = (if truthy (dict_get d ''tool_active'') then ''true'' else ''false''),
             t_camera_zoom = dict_get d ''camera_zoom'',
             t_lighting_level = dict_get d ''lighting_level'',
             t_system_temperature = system_temperature,
             t_motor_current = motor_current,
             t_network_latency_ms = network_latency_ms,
             t_video_fps = video_fps\<rparr>
     }"

text \<open>\<^verbatim>\<open>transform_telemetry_record\<close>. \<^verbatim>\<open>datetime.fromisoformat\<close> is the standard
  library's: a parameter, \<open>None\<close> where it raises ValueError. A record that is not a
  dict has no \<^verbatim>\<open>get\<close>, and a timestamp that is true but not a string has no
  \<^verbatim>\<open>replace\<close>: both raise inside the \<^verbatim>\<open>try\<close>, so the result is \<^verbatim>\<open>None\<close>.\<close>

definition transform_telemetry_record :: "(string \<Rightarrow> datetime option) \<Rightarrow> json \<Rightarrow> telemetry_row option" where
  "transform_telemetry_record fromisoformat record =
     (case record of
        JObj d \<Rightarrow>
          (let timestamp = dict_get d ''timestamp'' in
           if \<not> truthy timestamp then None
           else (case timestamp of
                   JStr ts \<Rightarrow>
                     (case fromisoformat (replace_Z ts) of
                        None \<Rightarrow> None
                      | Some ts_obj \<Rightarrow> build_row d ts ts_obj)
                 | other \<Rightarrow> None))
      | other \<Rightarrow> None)"

section \<open>The telemetry batch\<close>

text \<open>The raw bucket: its objects in listing order, each with the document that
  \<^verbatim>\<open>json.loads(obj['Body'].read().decode('utf-8'))\<close> gives, \<open>None\<close> when that
  raises. \<^verbatim>\<open>list_objects_v2\<close> is the object store's: the keys with the prefix, at
  most \<^verbatim>\<open>MaxKeys\<close> of them.\<close>

type_synonym bucket = "(string \<times> json option) list"

definition startswith :: "string \<Rightarrow> string \<Rightarrow> bool" where
  "startswith k p = (take (length p) k = p)"

definition endswith :: "string \<Rightarrow> string \<Rightarrow> bool" where
  "endswith k sfx = (length sfx \<le> length k \<and> drop (length k - length sfx) k = sfx)"

definition list_objects_v2 :: "bucket \<Rightarrow> string \<Rightarrow> nat \<Rightarrow> string list" where
  "list_objects_v2 b pfx max_keys = take max_keys (filter (\<lambda>k. startswith k pfx) (map fst b))"

text \<open>The state of the loop of \<^verbatim>\<open>process_telemetry_files\<close>: its two variables,
  and the keys it has asked \<^verbatim>\<open>get_object\<close> for.\<close>

record batch_state =
  telemetry_records :: "telemetry_row list"
  files_processed :: nat
  requested :: "string list"

text \<open>The inner loop: a record whose transform is \<^verbatim>\<open>None\<close> is passed over.\<close>

fun transform_records ::
  "(string \<Rightarrow> datetime option) \<Rightarrow> json list \<Rightarrow> telemetry_row list \<Rightarrow> telemetry_row list" where
  "transform_records fromisoformat [] acc = acc"
| "transform_records fromisoformat (r # rs) acc =
     (case transform_telemetry_record fromisoformat r of
        None \<Rightarrow> transform_records fromisoformat rs acc
      | Some transformed \<Rightarrow> transform_records fromisoformat rs (acc @ [transformed]))"

text \<open>\<^verbatim>\<open>records = telemetry_data if isinstance(telemetry_data, list) else [telemetry_data]\<close>\<close>

definition records_of :: "json \<Rightarrow> json list" where
  "records_of telemetry_data = (case telemetry_data of JArr xs \<Rightarrow> xs | other \<Rightarrow> [telemetry_data])"

text \<open>One turn of the outer loop: an object that cannot be read or parsed is passed
  over (\<^verbatim>\<open>except ... continue\<close>).\<close>

definition process_file ::
  "(string \<Rightarrow> datetime option) \<Rightarrow> bucket \<Rightarrow> batch_state \<Rightarrow> string \<Rightarrow> batch_state" where
  "process_file fromisoformat b st file_key =
     (let st1 = st\<lparr>requested := requested st @ [file_key]\<rparr> in
      case map_of b file_key of
        None \<Rightarrow> st1
      | Some None \<Rightarrow> st1
      | Some (Some telemetry_data) \<Rightarrow>
          st1\<lparr>telemetry_records :=
                 transform_records fromisoformat (records_of telemetry_data) (telemetry_records st1),
               files_processed := Suc (files_processed st1)\<rparr>)"

definition initial_state :: batch_state where
  "initial_state = \<lparr>telemetry_records = [], files_processed = 0, requested = []\<rparr>"

definition json_files :: "bucket \<Rightarrow> string \<Rightarrow> string list" where
  "json_files b s3_prefix = filter (\<lambda>k. endswith k ''.json'') (list_objects_v2 b s3_prefix 1000)"

text \<open>\<^verbatim>\<open>process_telemetry_files\<close> up to the export: the final state of the loop and
  the value returned. When \<open>telemetry_records\<close> is not empty it is the batch written to
  the staging file and loaded.\<close>

definition process_telemetry_files ::
  "(string \<Rightarrow> datetime option) \<Rightarrow> bucket \<Rightarrow> string \<Rightarrow> batch_state \<times> nat" where
  "process_telemetry_files fromisoformat b s3_prefix =
     (if list_objects_v2 b s3_prefix 1000 = [] then (initial_state, 0)
      else let files = json_files b s3_prefix in
        if files = [] then (initial_state, 0)
        else let st = foldl (process_file fromisoformat b) initial_state (take 100 files) in
          if telemetry_records st = [] then (st, 0)
          else (st, length (telemetry_records st)))"

section \<open>The handlers\<close>

text \<open>What a call does: it returns a value or raises an exception (its message).\<close>

datatype 'a outcome = Returned 'a | Raised string

text \<open>The dict \<^verbatim>\<open>results\<close> of the handler of \<^verbatim>\<open>rds_to_redshift_etl.py\<close>.\<close>

record etl_results =
  r_status :: string
  r_timestamp :: string
  r_etl_type :: string
  r_records_loaded :: "string \<rightharpoonup> int"
  r_error :: "string option"

definition set_loaded :: "string \<Rightarrow> int \<Rightarrow> etl_results \<Rightarrow> etl_results" where
  "set_loaded entity n results = results\<lparr>r_records_loaded := (r_records_loaded results)(entity \<mapsto> n)\<rparr>"

text \<open>The body of the \<^verbatim>\<open>try\<close>: \<open>surgeons\<close>, \<open>robots\<close> and \<open>procedures\<close> are what
  the three loads do when they are called. The result is \<^verbatim>\<open>results\<close> as the body
  leaves it, and the exception that ended it, if one did.\<close>

definition load_dimensions :: "etl_results \<Rightarrow> int outcome \<Rightarrow> int outcome \<Rightarrow> etl_results \<times> string option" where
  "load_dimensions results surgeons robots =
     (case surgeons of
        Raised e \<Rightarrow> (results, Some e)
      | Returned n \<Rightarrow>
          (case robots of
             Raised e \<Rightarrow> (set_loaded ''surgeons'' n results, Some e)
           | Returned m \<Rightarrow> (set_loaded ''robots'' m (set_loaded ''surgeons'' n results), None)))"

definition try_body ::
  "string \<Rightarrow> etl_results \<Rightarrow> int outcome \<Rightarrow> int outcome \<Rightarrow> int outcome \<Rightarrow> etl_results \<times> string option" where
  "try_body etl_type results surgeons robots procedures =
     (let after_dimensions =
            (if etl_type = ''full'' \<or> etl_type = ''dimensions''
             then load_dimensions results surgeons robots else (results, None))
      in case snd after_dimensions of
           Some e \<Rightarrow> after_dimensions
         | None \<Rightarrow>
             (if etl_type = ''full'' \<or> etl_type = ''procedures''
              then (case procedures of
                      Raised e \<Rightarrow> (fst after_dimensions, Some e)
                    | Returned n \<Rightarrow> (set_loaded ''procedures'' n (fst after_dimensions), None))
              else after_dimensions))"

text \<open>\<^verbatim>\<open>lambda_handler\<close> of \<^verbatim>\<open>rds_to_redshift_etl.py\<close>: \<^verbatim>\<open>results\<close> as the handler
  leaves it, and what the caller gets. The \<^verbatim>\<open>except\<close> clause writes the status and
  the error into \<^verbatim>\<open>results\<close> and ends with \<^verbatim>\<open>raise\<close>.\<close>

definition lambda_handler ::
  "string \<Rightarrow> string option \<Rightarrow> int outcome \<Rightarrow> int outcome \<Rightarrow> int outcome \<Rightarrow> etl_results \<times> etl_results outcome" where
  "lambda_handler now event_etl_type surgeons robots procedures =
     (let etl_type = (case event_etl_type of None \<Rightarrow> ''full'' | Some t \<Rightarrow> t);
          results = \<lparr>r_status = ''success'', r_timestamp = now, r_etl_type = etl_type,
                     r_records_loaded = Map.empty, r_error = None\<rparr>
      in case try_body etl_type results surgeons robots procedures of
           (finished, None) \<Rightarrow> (finished, Returned finished)
         | (partial, Some e) \<Rightarrow> (partial\<lparr>r_status := ''failed'', r_error := Some e\<rparr>, Raised e))"

text \<open>The handler of \<^verbatim>\<open>s3_telemetry_to_redshift.py\<close>, in the same way;
  \<open>process\<close> is what \<^verbatim>\<open>process_telemetry_files\<close> does when it is called.\<close>

record telemetry_results =
  tr_status :: string
  tr_timestamp :: string
  tr_batch_date :: string
  tr_records_loaded :: int
  tr_error :: "string option"

definition telemetry_lambda_handler ::
  "string \<Rightarrow> string \<Rightarrow> int outcome \<Rightarrow> telemetry_results \<times> telemetry_results outcome" where
  "telemetry_lambda_handler now batch_date process =
     (let results = \<lparr>tr_status = ''success'', tr_timestamp = now, tr_batch_date = batch_date,
                     tr_records_loaded = 0, tr_error = None\<rparr>
      in case process of
           Returned records_loaded \<Rightarrow>
             (results\<lparr>tr_records_loaded := records_loaded\<rparr>,
              Returned (results\<lparr>tr_records_loaded := records_loaded\<rparr>))
         | Raised e \<Rightarrow> (results\<lparr>tr_status := ''failed'', tr_error := Some e\<rparr>, Raised e))"

section \<open>Notions used in the statements\<close>

text \<open>The rows a file contributes to the batch: the transforms of its records that are
  not \<^verbatim>\<open>None\<close>, and none when the file cannot be read or parsed.\<close>

definition accepted_of :: "(string \<Rightarrow> datetime option) \<Rightarrow> bucket \<Rightarrow> string \<Rightarrow> telemetry_row list" where
  "accepted_of fromisoformat b file_key =
     (case map_of b file_key of
        Some (Some telemetry_data) \<Rightarrow>
          List.map_filter (transform_telemetry_record fromisoformat) (records_of telemetry_data)
      | other \<Rightarrow> [])"

text \<open>A nested group that the transform can read: absent, or a dict.\<close>

definition group_ok :: "(string \<times> json) list \<Rightarrow> string \<Rightarrow> bool" where
  "group_ok d g = (case map_of d g of None \<Rightarrow> True | Some (JObj grp) \<Rightarrow> True | Some other \<Rightarrow> False)"

text \<open>A nested field that is absent: its group is absent, or is a dict without the key.\<close>

definition nested_absent :: "(string \<times> json) list \<Rightarrow> string \<Rightarrow> string \<Rightarrow> bool" where
  "nested_absent d g k =
     (case map_of d g of None \<Rightarrow> True | Some (JObj grp) \<Rightarrow> map_of grp k = None | Some other \<Rightarrow> False)"

text \<open>The bucket with the document of one object replaced.\<close>

definition replace_body :: "bucket \<Rightarrow> string \<Rightarrow> json \<Rightarrow> bucket" where
  "replace_body b file_key telemetry_data =
     map (\<lambda>(k, body). if k = file_key then (k, Some telemetry_data) else (k, body)) b"

text \<open>The rows of one surgeon in \<^verbatim>\<open>dim_surgeons\<close>, of one robot in \<^verbatim>\<open>dim_robots\<close>, and the
  staged rows of one surgeon or robot.\<close>

definition surgeon_rows :: "string \<Rightarrow> dim_surgeon list \<Rightarrow> dim_surgeon list" where
  "surgeon_rows sid tab = filter (\<lambda>d. ds_surgeon_id d = Some sid) tab"

definition staged_surgeons :: "string \<Rightarrow> staging_surgeon list \<Rightarrow> staging_surgeon list" where
  "staged_surgeons sid staging = filter (\<lambda>s. ss_surgeon_id s = Some sid) staging"

definition robot_rows :: "string \<Rightarrow> dim_robot list \<Rightarrow> dim_robot list" where
  "robot_rows rid tab = filter (\<lambda>d. dr_robot_id d = Some rid) tab"

definition staged_robots :: "string \<Rightarrow> staging_robot list \<Rightarrow> staging_robot list" where
  "staged_robots rid staging = filter (\<lambda>s. sr_robot_id s = Some rid) staging"

text \<open>A dimension in which no two current rows share a natural key (a NULL key joins
  nothing).\<close>

definition unique_current_robots :: "dim_robot list \<Rightarrow> bool" where
  "unique_current_robots robots =
     distinct (map dr_robot_id (filter (\<lambda>r. dr_is_current r = Some True \<and> dr_robot_id r \<noteq> None) robots))"

definition unique_current_surgeons :: "dim_surgeon list \<Rightarrow> bool" where
  "unique_current_surgeons surgeons =
     distinct (map ds_surgeon_id (filter (\<lambda>r. ds_is_current r = Some True \<and> ds_surgeon_id r \<noteq> None) surgeons))"

definition unique_current_facilities :: "dim_facility list \<Rightarrow> bool" where
  "unique_current_facilities facilities =
     distinct (map df_facility_id (filter (\<lambda>r. df_is_current r = Some True \<and> df_facility_id r \<noteq> None) facilities))"

text \<open>The natural key of a telemetry fact, and the columns of a staged telemetry row that
  decide it.\<close>

definition telemetry_key :: "fact_telemetry \<Rightarrow> nat option \<times> string option" where
  "telemetry_key row = (ft_procedure_key row, ft_sample_timestamp row)"

definition staged_telemetry_key :: "staging_telemetry \<Rightarrow> string option \<times> string option" where
  "staged_telemetry_key st = (st_procedure_id st, st_sample_timestamp st)"

text \<open>A fact row that carries a staged row: apart from its four keys, it is the staged row.\<close>

definition carries :: "staging_procedure \<Rightarrow> fact_procedure \<Rightarrow> bool" where
  "carries s row =
     (row\<lparr>fp_procedure_key := 0, fp_robot_key := None, fp_surgeon_key := None, fp_facility_key := None\<rparr>
        = new_procedure_row s None None None 0)"

text \<open>A foreign key resolved against a dimension: NULL when no row matches, and the
  surrogate key of a matching row otherwise. The matching rows of a staged procedure are
  the current rows with its natural key; those of a staged telemetry row, the procedures
  with its procedure id.\<close>

definition resolved :: "('d \<Rightarrow> bool) \<Rightarrow> ('d \<Rightarrow> nat) \<Rightarrow> 'd list \<Rightarrow> nat option \<Rightarrow> bool" where
  "resolved matches key ds fk =
     (case fk of
        None \<Rightarrow> \<not> list_ex matches ds
      | Some k \<Rightarrow> list_ex (\<lambda>d. matches d \<and> key d = k) ds)"

definition current_robot_of :: "staging_procedure \<Rightarrow> dim_robot \<Rightarrow> bool" where
  "current_robot_of s r =
     (dr_is_current r = Some True \<and> sp_robot_id s \<noteq> None \<and> dr_robot_id r = sp_robot_id s)"

definition current_surgeon_of :: "staging_procedure \<Rightarrow> dim_surgeon \<Rightarrow> bool" where
  "current_surgeon_of s sg =
     (ds_is_current sg = Some True \<and> sp_surgeon_id s \<noteq> None \<and> ds_surgeon_id sg = sp_surgeon_id s)"

definition current_facility_of :: "staging_procedure \<Rightarrow> dim_facility \<Rightarrow> bool" where
  "current_facility_of s f =
     (df_is_current f = Some True \<and> sp_facility_id s \<noteq> None \<and> df_facility_id f = sp_facility_id s)"

definition procedure_of :: "staging_telemetry \<Rightarrow> fact_procedure \<Rightarrow> bool" where
  "procedure_of st fp = (st_procedure_id st \<noteq> None \<and> fp_procedure_id fp = st_procedure_id st)"

definition fks_resolved ::
  "dim_robot list \<Rightarrow> dim_surgeon list \<Rightarrow> dim_facility list \<Rightarrow> staging_procedure \<Rightarrow> fact_procedure \<Rightarrow> bool" where
  "fks_resolved robots surgeons facilities s row =
     (resolved (current_robot_of s) dr_robot_key robots (fp_robot_key row)
      \<and> resolved (current_surgeon_of s) ds_surgeon_key surgeons (fp_surgeon_key row)
      \<and> resolved (current_facility_of s) df_facility_key facilities (fp_facility_key row))"

section \<open>Sample inputs\<close>

text \<open>A parser for timestamps of the one form \<^verbatim>\<open>YYYY-MM-DDTHH:MM:SS\<close>, with or
  without the offset \<^verbatim>\<open>+00:00\<close>: a part of what \<^verbatim>\<open>datetime.fromisoformat\<close> accepts,
  to run the transform on sample records. The theorems hold for every parser.\<close>

definition digit :: "char \<Rightarrow> int option" where
  "digit c = (let n = (of_char c :: nat) in if 48 \<le> n \<and> n \<le> 57 then Some (int n - 48) else None)"

fun digits_value :: "string \<Rightarrow> int \<Rightarrow> int option" where
  "digits_value [] acc = Some acc"
| "digits_value (c # cs) acc = (case digit c of None \<Rightarrow> None | Some v \<Rightarrow> digits_value cs (10 * acc + v))"

definition field_at :: "string \<Rightarrow> nat \<Rightarrow> nat \<Rightarrow> int option" where
  "field_at s i n = digits_value (take n (drop i s)) 0"

definition fromisoformat_fixed :: "string \<Rightarrow> datetime option" where
  "fromisoformat_fixed s =
     (if (length s = 19 \<or> (length s = 25 \<and> drop 19 s = ''+00:00''))
         \<and> take 1 (drop 4 s) = ''-'' \<and> take 1 (drop 7 s) = ''-'' \<and> take 1 (drop 10 s) = ''T''
         \<and> take 1 (drop 13 s) = '':'' \<and> take 1 (drop 16 s) = '':''
      then do {
        y \<leftarrow> field_at s 0 4;
        mo \<leftarrow> field_at s 5 2;
        dd \<leftarrow> field_at s 8 2;
        h \<leftarrow> field_at s 11 2;
        mi \<leftarrow> field_at s 14 2;
        sec \<leftarrow> field_at s 17 2;
        if 1 \<le> y \<and> 1 \<le> mo \<and> mo \<le> 12 \<and> 1 \<le> dd \<and> dd \<le> 31 \<and> h < 24 \<and> mi < 60 \<and> sec < 60
        then Some \<lparr>year = y, month = mo, day = dd, hour = h, minute = mi, second = sec\<rparr>
        else None }
      else None)"

definition sample_items :: "(string \<times> json) list" where
  "sample_items =
     [(''procedure_id'', JStr ''PROC-0001''),
      (''timestamp'', JStr ''2024-01-15T14:30:45Z''),
      (''arm_position'', JObj [(''x'', JInt 1), (''y'', JInt 2)]),
      (''tool_type'', JStr ''scalpel'')]"

definition sample_record :: json where
  "sample_record = JObj sample_items"

definition sample_items_without_timestamp :: "(string \<times> json) list" where
  "sample_items_without_timestamp =
     [(''procedure_id'', JStr ''PROC-0001''),
      (''tool_active'', JBool True)]"

definition sample_without_timestamp :: json where
  "sample_without_timestamp = JObj sample_items_without_timestamp"

definition sample_bucket :: bucket where
  "sample_bucket =
     [(''telemetry/PROC-0001/a.json'', Some (JArr [sample_without_timestamp, sample_record])),
      (''telemetry/PROC-0001/b.json'', None)]"

definition sample_bucket_clean :: bucket where
  "sample_bucket_clean =
     [(''telemetry/PROC-0001/a.json'', Some (JArr [sample_record])),
      (''telemetry/PROC-0001/b.json'', None)]"

definition sample_row :: telemetry_row where
  "sample_row =
     \<lparr>t_procedure_id = JStr ''PROC-0001'', t_timestamp_key = 143000,
      t_sample_timestamp = ''2024-01-15T14:30:45Z'',
      t_arm_position_x = JInt 1, t_arm_position_y = JInt 2, t_arm_position_z = JNull,
      t_arm_rotation_x = JNull, t_arm_rotation_y = JNull, t_arm_rotation_z = JNull,
      t_force_feedback = JNull, t_tool_type = JStr ''scalpel'', t_tool_active = ''false'',
      t_camera_zoom = JNull, t_lighting_level = JNull, t_system_temperature = JNull,
      t_motor_current = JNull, t_network_latency_ms = JNull, t_video_fps = JNull\<rparr>"

text \<open>A staged surgeon as the extraction query builds it (the specialization and the
  certification level are its constants), a dimension table holding one surgeon, a
  facility and a staged robot.\<close>

definition sample_surgeon :: "string \<Rightarrow> string \<Rightarrow> int \<Rightarrow> staging_surgeon" where
  "sample_surgeon sid name yrs =
     \<lparr>ss_surgeon_id = Some sid, ss_surgeon_name = Some name,
      ss_specialization = Some ''General Surgery'', ss_years_experience = Some yrs,
      ss_certification_level = Some ''Board Certified'', ss_effective_date = Some 19000\<rparr>"

definition sample_dim_surgeons :: "dim_surgeon list" where
  "sample_dim_surgeons = [new_surgeon_row (sample_surgeon ''SURG-0001'' ''Dr. Smith'' 5) 1]"

definition sample_facilities :: "dim_facility list" where
  "sample_facilities = [\<lparr>df_facility_key = 1, df_facility_id = Some ''FAC-001'', df_is_current = Some True\<rparr>]"

definition sample_robot :: staging_robot where
  "sample_robot =
     \<lparr>sr_robot_id = Some ''ROB-0001'', sr_robot_serial_number = Some ''SN-1'',
      sr_robot_model = Some ''MX-1'', sr_manufacturer = Some ''Acme'',
      sr_facility_id = Some ''FAC-001'', sr_install_date = Some 18000,
      sr_software_version = Some ''1.0'', sr_hardware_revision = Some ''A'',
      sr_status = Some ''active'', sr_last_maintenance_date = None,
      sr_total_procedures_count = Some 12, sr_total_operating_hours = Some 30,
      sr_effective_date = Some 18000\<rparr>"

text \<open>A staged procedure, the fact row it loads as, and a staged telemetry sample of a
  procedure.\<close>

definition sample_procedure :: staging_procedure where
  "sample_procedure =
     \<lparr>sp_procedure_id = Some ''PROC-0001'', sp_robot_id = Some ''ROB-0001'',
      sp_surgeon_id = Some ''SURG-0001'', sp_facility_id = Some ''FAC-001'',
      sp_start_date_key = Some 20240115, sp_start_time_key = Some 143000,
      sp_end_date_key = Some 20240115, sp_end_time_key = Some 161500,
      sp_procedure_type = Some ''Prostatectomy'', sp_procedure_category = Some ''Urology'',
      sp_patient_id = Some ''PAT-1'', sp_patient_age = Some 61, sp_patient_gender = Some ''M'',
      sp_duration_minutes = Some 105, sp_complexity_score = Some 3,
      sp_success_status = Some ''success'', sp_blood_loss_ml = Some 150,
      sp_complication_level = None, sp_hospital_stay_days = Some 2,
      sp_patient_satisfaction_score = None, sp_readmission_30day = Some False,
      sp_status = Some ''completed''\<rparr>"

definition sample_fact :: fact_procedure where
  "sample_fact = new_procedure_row sample_procedure None (Some (hd sample_dim_surgeons)) (Some (hd sample_facilities)) 1"

definition sample_staged_telemetry :: "string \<Rightarrow> staging_telemetry" where
  "sample_staged_telemetry pid =
     \<lparr>st_procedure_id = Some pid, st_timestamp_key = Some 143000,
      st_sample_timestamp = Some ''2024-01-15 14:30:45'',
      st_arm_position_x = Some 1, st_arm_position_y = Some 2, st_arm_position_z = None,
      st_arm_rotation_x = None, st_arm_rotation_y = None, st_arm_rotation_z = None,
      st_force_feedback = None, st_tool_type = Some ''scalpel'', st_tool_active = Some False,
      st_camera_zoom = None, st_lighting_level = None, st_system_temperature = None,
      st_motor_current = None, st_network_latency_ms = None, st_video_fps = None\<rparr>"

section \<open>The telemetry transform and batch: properties\<close>

lemma transform_records_map_filter:
  "transform_records f rs acc = acc @ List.map_filter (transform_telemetry_record f) rs"
  by (induction rs arbitrary: acc) (auto simp: List.map_filter_simps split: option.splits)

lemma process_file_records:
  "telemetry_records (process_file f b st k) = telemetry_records st @ accepted_of f b k"
  by (auto simp: process_file_def accepted_of_def transform_records_map_filter Let_def split: option.splits)



lemma loop_records:
  "telemetry_records (foldl (process_file f b) st ks) = telemetry_records st @ concat (map (accepted_of f b) ks)"
  by (induction ks arbitrary: st) (auto simp: process_file_records)



lemma batch_records:
  "telemetry_records (fst (process_telemetry_files f b pfx)) =
     concat (map (accepted_of f b) (take 100 (json_files b pfx)))"
  by (auto simp: process_telemetry_files_def Let_def loop_records initial_state_def json_files_def)



lemma batch_returned:
  "snd (process_telemetry_files f b pfx) = length (telemetry_records (fst (process_telemetry_files f b pfx)))"
  by (auto simp: process_telemetry_files_def Let_def initial_state_def)

lemma nested_get_ok: "group_ok d g \<Longrightarrow> \<exists>v. nested_get d g k = Some v"
  by (auto simp: group_ok_def nested_get_def split: option.splits json.splits)

lemma build_row_key:
  "build_row d ts ts_obj = Some out \<Longrightarrow> t_timestamp_key out = hour ts_obj * 10000 + minute ts_obj * 100"
  by (auto simp: build_row_def split: Option.bind_splits)

lemma build_row_total:
  assumes "group_ok d ''arm_position''" "group_ok d ''arm_rotation''" "group_ok d ''system_metrics''"
  shows "\<exists>out. build_row d ts ts_obj = Some out"
proof -
  obtain a1 a2 a3 where a: "nested_get d ''arm_position'' ''x'' = Some a1"
     "nested_get d ''arm_position'' ''y'' = Some a2" "nested_get d ''arm_position'' ''z'' = Some a3"
    using assms(1) nested_get_ok by meson
  obtain r1 r2 r3 where r: "nested_get d ''arm_rotation'' ''x'' = Some r1"
     "nested_get d ''arm_rotation'' ''y'' = Some r2" "nested_get d ''arm_rotation'' ''z'' = Some r3"
    using assms(2) nested_get_ok by meson
  obtain m1 m2 m3 m4 where m: "nested_get d ''system_metrics'' ''temperature'' = Some m1"
     "nested_get d ''system_metrics'' ''motor_current'' = Some m2"
     "nested_get d ''system_metrics'' ''network_latency_ms'' = Some m3"
     "nested_get d ''system_metrics'' ''video_fps'' = Some m4"
    using assms(3) nested_get_ok by meson
  show ?thesis by (simp add: build_row_def a r m)
qed

lemma transform_parsed:
  assumes "map_of d ''timestamp'' = Some (JStr ts)" "ts \<noteq> []" "fromisoformat (replace_Z ts) = Some ts_obj"
  shows "transform_telemetry_record fromisoformat (JObj d) = build_row d ts ts_obj"
  using assms by (simp add: transform_telemetry_record_def dict_get_def)

lemma transform_Some_nonempty:
  assumes "map_of d ''timestamp'' = Some (JStr ts)" "transform_telemetry_record fromisoformat (JObj d) = Some out"
  shows "ts \<noteq> []"
  using assms by (auto simp: transform_telemetry_record_def dict_get_def)

lemma transform_SomeD:
  assumes "transform_telemetry_record fromisoformat (JObj d) = Some out"
  shows "\<exists>ts ts_obj. map_of d ''timestamp'' = Some (JStr ts) \<and> ts \<noteq> []
           \<and> fromisoformat (replace_Z ts) = Some ts_obj \<and> build_row d ts ts_obj = Some out"
  using assms
  by (auto simp: transform_telemetry_record_def dict_get_def Let_def
           split: option.splits json.splits if_splits)

lemma build_row_nested:
  "build_row d ts ts_obj = Some out \<Longrightarrow>
     nested_get d ''arm_position'' ''x'' = Some (t_arm_position_x out)
     \<and> nested_get d ''arm_position'' ''y'' = Some (t_arm_position_y out)
     \<and> nested_get d ''arm_position'' ''z'' = Some (t_arm_position_z out)
     \<and> nested_get d ''arm_rotation'' ''x'' = Some (t_arm_rotation_x out)
     \<and> nested_get d ''arm_rotation'' ''y'' = Some (t_arm_rotation_y out)
     \<and> nested_get d ''arm_rotation'' ''z'' = Some (t_arm_rotation_z out)
     \<and> nested_get d ''system_metrics'' ''temperature'' = Some (t_system_temperature out)
     \<and> nested_get d ''system_metrics'' ''motor_current'' = Some (t_motor_current out)
     \<and> nested_get d ''system_metrics'' ''network_latency_ms'' = Some (t_network_latency_ms out)
     \<and> nested_get d ''system_metrics'' ''video_fps'' = Some (t_video_fps out)"
  by (auto simp: build_row_def split: Option.bind_splits)

lemma build_row_scalars:
  "build_row d ts ts_obj = Some out \<Longrightarrow>
     t_tool_active out = (if truthy (dict_get d ''tool_active'') then ''true'' else ''false'')
     \<and> t_sample_timestamp out = ts
     \<and> t_procedure_id out = dict_get d ''procedure_id''
     \<and> t_force_feedback out = dict_get d ''force_feedback''
     \<and> t_tool_type out = dict_get d ''tool_type''
     \<and> t_camera_zoom out = dict_get d ''camera_zoom''
     \<and> t_lighting_level out = dict_get d ''lighting_level''"
  by (auto simp: build_row_def split: Option.bind_splits)

lemma nested_absent_null:
  "nested_absent d g k \<Longrightarrow> nested_get d g k = Some v \<Longrightarrow> v = JNull"
  by (auto simp: nested_absent_def nested_get_def dict_get_def split: option.splits json.splits)

lemma dict_get_absent: "map_of d k = None \<Longrightarrow> dict_get d k = JNull"
  by (simp add: dict_get_def)

lemma replace_body_keys: "map fst (replace_body b k v) = map fst b"
  by (induction b) (auto simp: replace_body_def)

lemma replace_body_other: "k' \<noteq> k \<Longrightarrow> map_of (replace_body b k v) k' = map_of b k'"
  by (induction b) (auto simp: replace_body_def)

lemma replace_body_same: "map_of b k = Some old \<Longrightarrow> map_of (replace_body b k v) k = Some (Some v)"
  by (induction b) (auto simp: replace_body_def split: if_splits)

lemma transform_missing_timestamp:
  "map_of d ''timestamp'' = None \<Longrightarrow> transform_telemetry_record fromisoformat (JObj d) = None"
  by (simp add: transform_telemetry_record_def dict_get_def)

lemma map_filter_append: "List.map_filter f (xs @ ys) = List.map_filter f xs @ List.map_filter f ys"
  by (simp add: List.map_filter_def)

lemma map_filter_skip: "f x = None \<Longrightarrow> List.map_filter f (xs @ x # ys) = List.map_filter f (xs @ ys)"
  by (simp add: List.map_filter_def)

lemma transform_records_skip:
  assumes "transform_telemetry_record f r = None"
  shows "transform_records f (before @ r # after) acc = transform_records f (before @ after) acc"
  using map_filter_skip [of "transform_telemetry_record f" r before after] assms
  by (simp add: transform_records_map_filter)

lemma process_file_replace:
  assumes "map_of d ''timestamp'' = None"
      and "map_of b file_key = Some (Some (JArr (before @ JObj d # after)))"
  shows "process_file f (replace_body b file_key (JArr (before @ after))) st k = process_file f b st k"
proof (cases "k = file_key")
  case True
  have "map_of (replace_body b file_key (JArr (before @ after))) file_key = Some (Some (JArr (before @ after)))"
    using assms(2) by (rule replace_body_same)
  then show ?thesis
    using True assms(2) transform_records_skip [OF transform_missing_timestamp [OF assms(1)]]
    by (simp add: process_file_def records_of_def Let_def)
next
  case False
  then show ?thesis
    by (simp add: process_file_def replace_body_other)
qed

lemma loop_replace:
  assumes "map_of d ''timestamp'' = None"
      and "map_of b file_key = Some (Some (JArr (before @ JObj d # after)))"
  shows "foldl (process_file f (replace_body b file_key (JArr (before @ after)))) st ks
           = foldl (process_file f b) st ks"
  by (induction ks arbitrary: st) (simp_all add: process_file_replace [OF assms])

lemma batch_replace:
  assumes "map_of d ''timestamp'' = None"
      and "map_of b file_key = Some (Some (JArr (before @ JObj d # after)))"
  shows "process_telemetry_files f (replace_body b file_key (JArr (before @ after))) pfx
           = process_telemetry_files f b pfx"
  by (simp add: process_telemetry_files_def json_files_def list_objects_v2_def replace_body_keys
                loop_replace [OF assms] Let_def)

lemma accepted_member:
  assumes "map_of b k = Some (Some (JArr rs))" "r \<in> set rs" "transform_telemetry_record f r = Some t"
  shows "t \<in> set (accepted_of f b k)"
  using assms by (force simp: accepted_of_def records_of_def List.map_filter_def)

lemma sample_parse:
  "fromisoformat_fixed (replace_Z ''2024-01-15T14:30:45Z'') =
     Some \<lparr>year = 2024, month = 1, day = 15, hour = 14, minute = 30, second = 45\<rparr>"
  by (simp add: fromisoformat_fixed_def replace_Z_def field_at_def digit_def)

lemma sample_transform:
  "transform_telemetry_record fromisoformat_fixed sample_record = Some sample_row"
  by (simp add: sample_record_def sample_items_def sample_row_def transform_telemetry_record_def dict_get_def
                sample_parse build_row_def nested_get_def)

lemma sample_reject:
  "transform_telemetry_record fromisoformat_fixed sample_without_timestamp = None"
  by (simp add: sample_without_timestamp_def sample_items_without_timestamp_def
                transform_telemetry_record_def dict_get_def)

lemma sample_listing:
  "list_objects_v2 sample_bucket ''telemetry/'' 1000 = [''telemetry/PROC-0001/a.json'', ''telemetry/PROC-0001/b.json'']"
  "list_objects_v2 sample_bucket_clean ''telemetry/'' 1000 = [''telemetry/PROC-0001/a.json'', ''telemetry/PROC-0001/b.json'']"
  by (simp_all add: list_objects_v2_def sample_bucket_def sample_bucket_clean_def startswith_def)

lemma sample_keys:
  "json_files sample_bucket ''telemetry/'' = [''telemetry/PROC-0001/a.json'', ''telemetry/PROC-0001/b.json'']"
  "json_files sample_bucket_clean ''telemetry/'' = [''telemetry/PROC-0001/a.json'', ''telemetry/PROC-0001/b.json'']"
  by (simp_all add: json_files_def sample_listing endswith_def)

lemma sample_run:
  "process_telemetry_files fromisoformat_fixed sample_bucket ''telemetry/'' =
     (\<lparr>telemetry_records = [sample_row], files_processed = 1,
       requested = [''telemetry/PROC-0001/a.json'', ''telemetry/PROC-0001/b.json'']\<rparr>, 1)"
proof -
  have "foldl (process_file fromisoformat_fixed sample_bucket) initial_state
          [''telemetry/PROC-0001/a.json'', ''telemetry/PROC-0001/b.json''] =
        \<lparr>telemetry_records = [sample_row], files_processed = 1,
         requested = [''telemetry/PROC-0001/a.json'', ''telemetry/PROC-0001/b.json'']\<rparr>"
    by (simp add: initial_state_def process_file_def sample_bucket_def records_of_def
                  sample_transform sample_reject)
  then show ?thesis
    by (simp add: process_telemetry_files_def sample_listing sample_keys)
qed

lemma sample_run_clean:
  "process_telemetry_files fromisoformat_fixed sample_bucket_clean ''telemetry/'' =
     (\<lparr>telemetry_records = [sample_row], files_processed = 1,
       requested = [''telemetry/PROC-0001/a.json'', ''telemetry/PROC-0001/b.json'']\<rparr>, 1)"
proof -
  have "foldl (process_file fromisoformat_fixed sample_bucket_clean) initial_state
          [''telemetry/PROC-0001/a.json'', ''telemetry/PROC-0001/b.json''] =
        \<lparr>telemetry_records = [sample_row], files_processed = 1,
         requested = [''telemetry/PROC-0001/a.json'', ''telemetry/PROC-0001/b.json'']\<rparr>"
    by (simp add: initial_state_def process_file_def sample_bucket_clean_def records_of_def
                  sample_transform)
  then show ?thesis
    by (simp add: process_telemetry_files_def sample_listing sample_keys)
qed

text \<open>C7, as the code has it. A record without \<^verbatim>\<open>timestamp\<close> is rejected: its transform
  is \<^verbatim>\<open>None\<close>. It leaves no trace in the run: the final state of the loop and the value
  returned are those of the run over the same bucket with the record taken out of its
  file, so it is not in the staged rows, the batch goes on, and no counter of the run
  records it. Every other record of the file that the transform accepts is staged, when
  the file is among those the run reads.\<close>

theorem missing_timestamp_skipped:
  assumes "map_of d ''timestamp'' = None"
      and "map_of b file_key = Some (Some (JArr (before @ JObj d # after)))"
  shows "transform_telemetry_record fromisoformat (JObj d) = None
       \<and> process_telemetry_files fromisoformat b s3_prefix =
           process_telemetry_files fromisoformat (replace_body b file_key (JArr (before @ after))) s3_prefix
       \<and> (file_key \<in> set (take 100 (json_files b s3_prefix)) \<longrightarrow>
            (\<forall>r \<in> set (before @ after). \<forall>t. transform_telemetry_record fromisoformat r = Some t \<longrightarrow>
               t \<in> set (telemetry_records (fst (process_telemetry_files fromisoformat b s3_prefix)))))"
proof (intro conjI impI ballI allI)
  show "transform_telemetry_record fromisoformat (JObj d) = None"
    using assms(1) by (rule transform_missing_timestamp)
next
  show "process_telemetry_files fromisoformat b s3_prefix =
          process_telemetry_files fromisoformat (replace_body b file_key (JArr (before @ after))) s3_prefix"
    using batch_replace [OF assms] by simp
next
  fix r t
  assume key: "file_key \<in> set (take 100 (json_files b s3_prefix))"
     and r: "r \<in> set (before @ after)"
     and t: "transform_telemetry_record fromisoformat r = Some t"
  have "r \<in> set (before @ JObj d # after)" using r by auto
  then have "t \<in> set (accepted_of fromisoformat b file_key)"
    using accepted_member [OF assms(2) _ t] by simp
  then show "t \<in> set (telemetry_records (fst (process_telemetry_files fromisoformat b s3_prefix)))"
    using key by (auto simp: batch_records)
qed

theorem missing_timestamp_skipped_witness:
  "transform_telemetry_record fromisoformat_fixed sample_without_timestamp = None
   \<and> process_telemetry_files fromisoformat_fixed sample_bucket ''telemetry/'' =
       process_telemetry_files fromisoformat_fixed
         (replace_body sample_bucket ''telemetry/PROC-0001/a.json'' (JArr [sample_record])) ''telemetry/''
   \<and> sample_row \<in> set (telemetry_records (fst (process_telemetry_files fromisoformat_fixed sample_bucket ''telemetry/'')))"
proof -
  have d: "map_of sample_items_without_timestamp ''timestamp'' = None"
    by (simp add: sample_items_without_timestamp_def)
  have b: "map_of sample_bucket ''telemetry/PROC-0001/a.json'' =
             Some (Some (JArr ([] @ JObj sample_items_without_timestamp # [sample_record])))"
    by (simp add: sample_bucket_def sample_without_timestamp_def)
  have k: "''telemetry/PROC-0001/a.json'' \<in> set (take 100 (json_files sample_bucket ''telemetry/''))"
    by (simp add: sample_keys)
  note skipped = missing_timestamp_skipped [OF d b, of fromisoformat_fixed "''telemetry/''"]
  have rejected: "transform_telemetry_record fromisoformat_fixed (JObj sample_items_without_timestamp) = None"
    using skipped by blast
  have same: "process_telemetry_files fromisoformat_fixed sample_bucket ''telemetry/'' =
       process_telemetry_files fromisoformat_fixed
         (replace_body sample_bucket ''telemetry/PROC-0001/a.json'' (JArr ([] @ [sample_record]))) ''telemetry/''"
    using skipped by blast
  have "sample_record \<in> set ([] @ [sample_record])"
    by simp
  then have staged: "sample_row \<in> set (telemetry_records
             (fst (process_telemetry_files fromisoformat_fixed sample_bucket ''telemetry/'')))"
    using skipped k sample_transform by blast
  from same have same': "process_telemetry_files fromisoformat_fixed sample_bucket ''telemetry/'' =
       process_telemetry_files fromisoformat_fixed
         (replace_body sample_bucket ''telemetry/PROC-0001/a.json'' (JArr [sample_record])) ''telemetry/''"
    by simp
  from rejected have "transform_telemetry_record fromisoformat_fixed sample_without_timestamp = None"
    by (simp add: sample_without_timestamp_def)
  with same' staged show ?thesis
    by (intro conjI)
qed

text \<open>C7, as stated, fails: the claim has the rejection increment a counter. The run
  over a file that holds a record without \<^verbatim>\<open>timestamp\<close> and the run over the file
  without that record end in the same state and return the same value: one file
  processed, one record loaded.\<close>

theorem rejection_not_counted:
  "process_telemetry_files fromisoformat_fixed sample_bucket ''telemetry/'' =
     process_telemetry_files fromisoformat_fixed sample_bucket_clean ''telemetry/''
   \<and> files_processed (fst (process_telemetry_files fromisoformat_fixed sample_bucket ''telemetry/'')) = 1
   \<and> snd (process_telemetry_files fromisoformat_fixed sample_bucket ''telemetry/'') = 1"
  by (simp add: sample_run sample_run_clean)

text \<open>C8: for a record whose timestamp parses, the time key of the transformed record is
  the hour times 10000 plus the minute times 100 of the parsed timestamp, and the
  transform does return a record when the timestamp is not empty and the nested groups
  are absent or dicts; the time keys of the procedure extraction are the same function
  of their timestamp. Both are functions: the same timestamp gives the same key.\<close>

theorem time_key_bucket:
  assumes "map_of d ''timestamp'' = Some (JStr ts)"
      and "fromisoformat (replace_Z ts) = Some ts_obj"
  shows "(\<forall>out. transform_telemetry_record fromisoformat (JObj d) = Some out \<longrightarrow>
            t_timestamp_key out = hour ts_obj * 10000 + minute ts_obj * 100)
       \<and> (ts \<noteq> [] \<and> group_ok d ''arm_position'' \<and> group_ok d ''arm_rotation'' \<and> group_ok d ''system_metrics'' \<longrightarrow>
            (\<exists>out. transform_telemetry_record fromisoformat (JObj d) = Some out))
       \<and> extract_time_key (Some t) = Some (hour t * 10000 + minute t * 100)"
proof (intro conjI allI impI)
  fix out
  assume out: "transform_telemetry_record fromisoformat (JObj d) = Some out"
  have "ts \<noteq> []" using assms(1) out by (rule transform_Some_nonempty)
  then have "build_row d ts ts_obj = Some out"
    using transform_parsed [of d ts fromisoformat ts_obj] assms out by simp
  then show "t_timestamp_key out = hour ts_obj * 10000 + minute ts_obj * 100"
    by (rule build_row_key)
next
  assume ok: "ts \<noteq> [] \<and> group_ok d ''arm_position'' \<and> group_ok d ''arm_rotation'' \<and> group_ok d ''system_metrics''"
  then have "transform_telemetry_record fromisoformat (JObj d) = build_row d ts ts_obj"
    using transform_parsed [of d ts fromisoformat ts_obj] assms by simp
  then show "\<exists>out. transform_telemetry_record fromisoformat (JObj d) = Some out"
    using build_row_total [of d ts ts_obj] ok by simp
next
  show "extract_time_key (Some t) = Some (hour t * 10000 + minute t * 100)"
    by (simp add: extract_time_key_def sql_plus_def sql_times_def sql_extract_def)
qed

theorem time_key_bucket_witness:
  "map_of sample_items ''timestamp'' = Some (JStr ''2024-01-15T14:30:45Z'')
   \<and> fromisoformat_fixed (replace_Z ''2024-01-15T14:30:45Z'') =
       Some \<lparr>year = 2024, month = 1, day = 15, hour = 14, minute = 30, second = 45\<rparr>
   \<and> transform_telemetry_record fromisoformat_fixed sample_record = Some sample_row
   \<and> t_timestamp_key sample_row = 143000
   \<and> extract_time_key (Some \<lparr>year = 2024, month = 1, day = 15, hour = 9, minute = 5, second = 59\<rparr>) = Some 90500"
proof -
  have d: "map_of sample_items ''timestamp'' = Some (JStr ''2024-01-15T14:30:45Z'')"
    by (simp add: sample_items_def)
  have "t_timestamp_key sample_row = 14 * 10000 + 30 * 100
        \<and> extract_time_key (Some \<lparr>year = 2024, month = 1, day = 15, hour = 9, minute = 5, second = 59\<rparr>)
            = Some (9 * 10000 + 5 * 100)"
    using time_key_bucket [of sample_items "''2024-01-15T14:30:45Z''" fromisoformat_fixed
            "\<lparr>year = 2024, month = 1, day = 15, hour = 14, minute = 30, second = 45\<rparr>"
            "\<lparr>year = 2024, month = 1, day = 15, hour = 9, minute = 5, second = 59\<rparr>"]
          d sample_parse sample_transform
    by (simp add: sample_record_def)
  then show ?thesis
    using d sample_parse sample_transform by simp
qed


text \<open>C10: in every record the transform returns, \<^verbatim>\<open>tool_active\<close> is the string
  \<^verbatim>\<open>true\<close> when the input's value is true in Python's sense and \<^verbatim>\<open>false\<close>
  otherwise, so \<^verbatim>\<open>false\<close> when the key is absent; every other optional field,
  scalar or nested, is \<^verbatim>\<open>None\<close> when absent.\<close>

theorem tool_active_flag:
  assumes "transform_telemetry_record fromisoformat (JObj d) = Some out"
  shows "t_tool_active out = (if truthy (dict_get d ''tool_active'') then ''true'' else ''false'')
     \<and> (map_of d ''tool_active'' = None \<longrightarrow> t_tool_active out = ''false'')
     \<and> (map_of d ''procedure_id'' = None \<longrightarrow> t_procedure_id out = JNull)
     \<and> (map_of d ''force_feedback'' = None \<longrightarrow> t_force_feedback out = JNull)
     \<and> (map_of d ''tool_type'' = None \<longrightarrow> t_tool_type out = JNull)
     \<and> (map_of d ''camera_zoom'' = None \<longrightarrow> t_camera_zoom out = JNull)
     \<and> (map_of d ''lighting_level'' = None \<longrightarrow> t_lighting_level out = JNull)
     \<and> (nested_absent d ''arm_position'' ''x'' \<longrightarrow> t_arm_position_x out = JNull)
     \<and> (nested_absent d ''arm_position'' ''y'' \<longrightarrow> t_arm_position_y out = JNull)
     \<and> (nested_absent d ''arm_position'' ''z'' \<longrightarrow> t_arm_position_z out = JNull)
     \<and> (nested_absent d ''arm_rotation'' ''x'' \<longrightarrow> t_arm_rotation_x out = JNull)
     \<and> (nested_absent d ''arm_rotation'' ''y'' \<longrightarrow> t_arm_rotation_y out = JNull)
     \<and> (nested_absent d ''arm_rotation'' ''z'' \<longrightarrow> t_arm_rotation_z out = JNull)
     \<and> (nested_absent d ''system_metrics'' ''temperature'' \<longrightarrow> t_system_temperature out = JNull)
     \<and> (nested_absent d ''system_metrics'' ''motor_current'' \<longrightarrow> t_motor_current out = JNull)
     \<and> (nested_absent d ''system_metrics'' ''network_latency_ms'' \<longrightarrow> t_network_latency_ms out = JNull)
     \<and> (nested_absent d ''system_metrics'' ''video_fps'' \<longrightarrow> t_video_fps out = JNull)"
proof -
  obtain ts ts_obj where row: "build_row d ts ts_obj = Some out"
    using transform_SomeD [OF assms] by blast
  note n = build_row_nested [OF row] and s = build_row_scalars [OF row]
  have flag: "t_tool_active out = (if truthy (dict_get d ''tool_active'') then ''true'' else ''false'')"
    using s by simp
  have absent: "map_of d ''tool_active'' = None \<longrightarrow> t_tool_active out = ''false''"
    using flag by (simp add: dict_get_absent)
  have scalars: "(map_of d ''procedure_id'' = None \<longrightarrow> t_procedure_id out = JNull)
     \<and> (map_of d ''force_feedback'' = None \<longrightarrow> t_force_feedback out = JNull)
     \<and> (map_of d ''tool_type'' = None \<longrightarrow> t_tool_type out = JNull)
     \<and> (map_of d ''camera_zoom'' = None \<longrightarrow> t_camera_zoom out = JNull)
     \<and> (map_of d ''lighting_level'' = None \<longrightarrow> t_lighting_level out = JNull)"
    using s by (simp add: dict_get_absent)
  have groups: "(nested_absent d ''arm_position'' ''x'' \<longrightarrow> t_arm_position_x out = JNull)
     \<and> (nested_absent d ''arm_position'' ''y'' \<longrightarrow> t_arm_position_y out = JNull)
     \<and> (nested_absent d ''arm_position'' ''z'' \<longrightarrow> t_arm_position_z out = JNull)
     \<and> (nested_absent d ''arm_rotation'' ''x'' \<longrightarrow> t_arm_rotation_x out = JNull)
     \<and> (nested_absent d ''arm_rotation'' ''y'' \<longrightarrow> t_arm_rotation_y out = JNull)
     \<and> (nested_absent d ''arm_rotation'' ''z'' \<longrightarrow> t_arm_rotation_z out = JNull)
     \<and> (nested_absent d ''system_metrics'' ''temperature'' \<longrightarrow> t_system_temperature out = JNull)
     \<and> (nested_absent d ''system_metrics'' ''motor_current'' \<longrightarrow> t_motor_current out = JNull)
     \<and> (nested_absent d ''system_metrics'' ''network_latency_ms'' \<longrightarrow> t_network_latency_ms out = JNull)
     \<and> (nested_absent d ''system_metrics'' ''video_fps'' \<longrightarrow> t_video_fps out = JNull)"
    using n by (blast dest: nested_absent_null)
  show ?thesis using flag absent scalars groups by blast
qed

theorem tool_active_flag_witness:
  "transform_telemetry_record fromisoformat_fixed sample_record = Some sample_row
   \<and> t_tool_active sample_row = ''false''
   \<and> t_force_feedback sample_row = JNull
   \<and> t_arm_position_z sample_row = JNull
   \<and> t_video_fps sample_row = JNull"
proof -
  have out: "transform_telemetry_record fromisoformat_fixed (JObj sample_items) = Some sample_row"
    using sample_transform by (simp add: sample_record_def)
  have a: "map_of sample_items ''tool_active'' = None" "map_of sample_items ''force_feedback'' = None"
          "nested_absent sample_items ''arm_position'' ''z''"
          "nested_absent sample_items ''system_metrics'' ''video_fps''"
    by (simp_all add: nested_absent_def sample_items_def)
  have "t_tool_active sample_row = ''false'' \<and> t_force_feedback sample_row = JNull
        \<and> t_arm_position_z sample_row = JNull \<and> t_video_fps sample_row = JNull"
    using tool_active_flag [OF out] a by blast
  then show ?thesis
    using sample_transform by simp
qed

section \<open>SQL: properties of the operators\<close>

lemma sql_true_eq: "sql_true (sql_eq a b) \<longleftrightarrow> (\<exists>x. a = Some x \<and> b = Some x)"
  by (auto simp: sql_true_def sql_eq_def split: option.splits)

lemma sql_true_eq_Some [simp]: "sql_true (sql_eq a (Some x)) \<longleftrightarrow> a = Some x"
  by (auto simp: sql_true_def sql_eq_def split: option.splits)

lemma sql_true_and: "sql_true (sql_and p q) \<longleftrightarrow> sql_true p \<and> sql_true q"
  by (cases "(p, q)" rule: sql_and.cases) (auto simp: sql_true_def)

lemma sql_true_or: "sql_true (sql_or p q) \<longleftrightarrow> sql_true p \<or> sql_true q"
  by (cases "(p, q)" rule: sql_or.cases) (auto simp: sql_true_def)

lemma sql_or_eq_False: "sql_or p q = Some False \<longleftrightarrow> p = Some False \<and> q = Some False"
  by (cases "(p, q)" rule: sql_or.cases) auto

lemma sql_true_not: "sql_true (sql_not p) \<longleftrightarrow> p = Some False"
  by (cases p) (auto simp: sql_true_def)

lemma sql_in_simps:
  "sql_in x [] = Some False"
  "sql_in x (r # rows) = sql_or (sql_eq x r) (sql_in x rows)"
  by (simp_all add: sql_in_def)

lemma sql_row_in_simps:
  "sql_row_in y [] = Some False"
  "sql_row_in y (q # qs) = sql_or (sql_row_eq y q) (sql_row_in y qs)"
  by (simp_all add: sql_row_in_def)

lemma sql_true_False [simp]: "\<not> sql_true (Some False)" "\<not> sql_true None" "sql_true (Some True)"
  by (simp_all add: sql_true_def)

lemma sql_true_in: "sql_true (sql_in x rows) \<longleftrightarrow> (\<exists>v. x = Some v \<and> Some v \<in> set rows)"
  by (induction rows) (auto simp: sql_in_simps sql_true_or sql_true_eq)

lemma sql_row_in_True:
  "sql_true (sql_row_in x rows) \<longleftrightarrow> (\<exists>r \<in> set rows. sql_true (sql_row_eq x r))"
  by (induction rows) (auto simp: sql_row_in_simps sql_true_or)

lemma sql_row_in_False:
  "sql_row_in x rows = Some False \<longleftrightarrow> (\<forall>r \<in> set rows. sql_row_eq x r = Some False)"
  by (induction rows) (auto simp: sql_row_in_simps sql_or_eq_False)



lemma left_join_None: "None \<in> set (left_join on ds) \<longleftrightarrow> \<not> (\<exists>d \<in> set ds. sql_true (on d))"
  by (auto simp: left_join_def filter_empty_conv split: list.splits)
     (metis filter_empty_conv list.distinct(1))+

lemma left_join_Some: "Some d \<in> set (left_join on ds) \<longleftrightarrow> d \<in> set ds \<and> sql_true (on d)"
proof (cases "filter (\<lambda>d. sql_true (on d)) ds")
  case Nil
  then show ?thesis by (auto simp: left_join_def filter_empty_conv)
next
  case (Cons m ms)
  then have "set (left_join on ds) = Some ` set (filter (\<lambda>d. sql_true (on d)) ds)"
    by (simp add: left_join_def)
  then show ?thesis by auto
qed

lemma left_join_nonempty: "left_join on ds \<noteq> []"
  by (simp add: left_join_def split: list.splits)

lemma left_join_no_match: "filter (\<lambda>d. sql_true (on d)) ds = [] \<Longrightarrow> left_join on ds = [None]"
  by (simp add: left_join_def)

lemma left_join_matches: "filter (\<lambda>d. sql_true (on d)) ds = m # ms \<Longrightarrow> left_join on ds = map Some (m # ms)"
  by (simp add: left_join_def)

lemma assign_keys_length [simp]: "length (assign_keys k rows) = length rows"
  by (induction rows arbitrary: k) auto

lemma assign_keys_append: "assign_keys k (xs @ ys) = assign_keys k xs @ assign_keys (k + length xs) ys"
  by (induction xs arbitrary: k) auto

lemma assign_keys_map:
  "(\<And>mk key. mk \<in> set rows \<Longrightarrow> g (mk key) = h mk) \<Longrightarrow> map g (assign_keys k rows) = map h rows"
  by (induction rows arbitrary: k) auto

lemma assign_keys_filter:
  "(\<And>mk key. mk \<in> set rows \<Longrightarrow> P (mk key) = Q mk) \<Longrightarrow>
     list_all2 (\<lambda>mk r. \<exists>key. r = mk key) (filter Q rows) (filter P (assign_keys k rows))"
  by (induction rows arbitrary: k) auto

lemma assign_keys_member:
  "r \<in> set (assign_keys k rows) \<Longrightarrow> \<exists>mk \<in> set rows. \<exists>key. r = mk key"
  by (induction rows arbitrary: k) auto

lemma member_assign_keys:
  "mk \<in> set rows \<Longrightarrow> \<exists>key. mk key \<in> set (assign_keys k rows)"
  by (induction rows arbitrary: k) auto

section \<open>The dimension merges: properties\<close>

lemma concat_map_filter_only:
  "(\<And>x. x \<in> set xs \<Longrightarrow> \<not> P x \<Longrightarrow> g x = []) \<Longrightarrow> concat (map g xs) = concat (map g (filter P xs))"
  by (induction xs) auto

lemma filter_concat_map: "filter Q (concat (map f xs)) = concat (map (\<lambda>x. filter Q (f x)) xs)"
  by (induction xs) auto

lemma close_surgeon_id [simp]: "ds_surgeon_id (close_surgeon t d) = ds_surgeon_id d"
  by (simp add: close_surgeon_def)

lemma close_surgeon_not_current [simp]: "ds_is_current (close_surgeon t d) = Some False"
  by (simp add: close_surgeon_def)

lemma surgeon_rows_expire:
  "surgeon_rows k (expire_surgeons t stg tab) =
     map (\<lambda>d. if sql_true (expire_surgeon_where stg d) then close_surgeon t d else d) (surgeon_rows k tab)"
  by (induction tab) (auto simp: surgeon_rows_def expire_surgeons_def)

lemma current_surgeons_rows:
  "current_surgeons k tab = filter (\<lambda>d. ds_is_current d = Some True) (surgeon_rows k tab)"
  by (induction tab) (auto simp: current_surgeons_def surgeon_rows_def)

lemma expire_surgeon_where_true:
  "sql_true (expire_surgeon_where stg r) \<longleftrightarrow>
     ds_is_current r = Some True
     \<and> (\<exists>v. ds_surgeon_id r = Some v \<and> Some v \<in> ss_surgeon_id ` set stg)
     \<and> (\<forall>s \<in> set stg. sql_row_eq (ds_surgeon_name r, ds_specialization r)
                                  (ss_surgeon_name s, ss_specialization s) = Some False)"
  by (auto simp: expire_surgeon_where_def sql_true_and sql_true_in sql_true_not sql_row_in_False)

lemma surgeon_join_matches:
  "ss_surgeon_id s = Some k \<Longrightarrow>
     filter (\<lambda>d. sql_true (surgeon_join_on s d)) tab = current_surgeons k tab"
  by (induction tab) (auto simp: surgeon_join_on_def current_surgeons_def sql_true_and sql_true_eq)

lemma surgeons_to_insert_id:
  "mk \<in> set (surgeons_to_insert stg tab) \<Longrightarrow> \<exists>s \<in> set stg. mk = new_surgeon_row s"
  by (auto simp: surgeons_to_insert_def surgeon_rows_of_def)

lemma new_surgeon_row_id [simp]: "ds_surgeon_id (new_surgeon_row s key) = ss_surgeon_id s"
  by (simp add: new_surgeon_row_def)

lemma inserted_for_key:
  assumes "staged_surgeons k stg = [s]"
  shows "filter (\<lambda>mk. ds_surgeon_id (mk 0) = Some k) (surgeons_to_insert stg tab)
           = filter (\<lambda>mk. ds_surgeon_id (mk 0) = Some k) (surgeon_rows_of tab s)"
proof -
  let ?Q = "\<lambda>mk. ds_surgeon_id (mk 0) = Some k"
  let ?g = "\<lambda>x. filter ?Q (surgeon_rows_of tab x)"
  have other: "?g x = []" if "\<not> ss_surgeon_id x = Some k" for x
    using that by (auto simp: surgeon_rows_of_def filter_empty_conv)
  have "filter ?Q (surgeons_to_insert stg tab) = concat (map ?g stg)"
    by (simp add: surgeons_to_insert_def filter_concat_map)
  also have "\<dots> = concat (map ?g (filter (\<lambda>x. ss_surgeon_id x = Some k) stg))"
    by (rule concat_map_filter_only) (rule other)
  also have "\<dots> = ?g s"
    using assms by (simp add: staged_surgeons_def)
  finally show ?thesis .
qed

lemma surgeon_rows_insert:
  "surgeon_rows k (insert_surgeons stg tab) =
     surgeon_rows k tab @
     filter (\<lambda>r. ds_surgeon_id r = Some k)
            (assign_keys (next_key (map ds_surgeon_key tab)) (surgeons_to_insert stg tab))"
  by (simp add: insert_surgeons_def surgeon_rows_def)

lemma inserted_rows_for_key:
  assumes "staged_surgeons k stg = [s]"
  shows "list_all2 (\<lambda>mk r. \<exists>key. r = mk key)
           (filter (\<lambda>mk. ds_surgeon_id (mk 0) = Some k) (surgeon_rows_of tab s))
           (filter (\<lambda>r. ds_surgeon_id r = Some k) (assign_keys n (surgeons_to_insert stg tab)))"
proof -
  have "list_all2 (\<lambda>mk r. \<exists>key. r = mk key)
           (filter (\<lambda>mk. ds_surgeon_id (mk 0) = Some k) (surgeons_to_insert stg tab))
           (filter (\<lambda>r. ds_surgeon_id r = Some k) (assign_keys n (surgeons_to_insert stg tab)))"
    by (rule assign_keys_filter) (auto dest: surgeons_to_insert_id)
  then show ?thesis
    by (simp add: inserted_for_key [OF assms])
qed

lemma filter_singleton: "filter P xs = [x] \<Longrightarrow> x \<in> set xs \<and> P x"
proof -
  assume "filter P xs = [x]"
  then have "x \<in> set (filter P xs)" by simp
  then show ?thesis by simp
qed

lemma staged_member:
  "staged_surgeons k stg = [s] \<Longrightarrow> s \<in> set stg \<and> ss_surgeon_id s = Some k"
  unfolding staged_surgeons_def by (rule filter_singleton)





lemma close_robot_id [simp]: "dr_robot_id (close_robot t d) = dr_robot_id d"
  by (simp add: close_robot_def)

lemma close_robot_not_current [simp]: "dr_is_current (close_robot t d) = Some False"
  by (simp add: close_robot_def)

lemma new_robot_row_id [simp]: "dr_robot_id (new_robot_row s f key) = sr_robot_id s"
  by (simp add: new_robot_row_def)

lemma new_robot_row_current [simp]: "dr_is_current (new_robot_row s f key) = Some True"
  by (simp add: new_robot_row_def)

lemma robot_rows_expire:
  "robot_rows k (expire_robots t stg tab) =
     map (\<lambda>d. if sql_true (expire_robot_where stg d) then close_robot t d else d) (robot_rows k tab)"
  by (induction tab) (auto simp: robot_rows_def expire_robots_def)

lemma expire_robot_where_true:
  "sql_true (expire_robot_where stg r) \<longleftrightarrow>
     dr_is_current r = Some True \<and> (\<exists>v. dr_robot_id r = Some v \<and> Some v \<in> sr_robot_id ` set stg)"
  by (auto simp: expire_robot_where_def sql_true_and sql_true_in)

lemma robots_to_insert_id:
  "mk \<in> set (robots_to_insert fs stg) \<Longrightarrow> \<exists>s \<in> set stg. \<exists>f. mk = new_robot_row s f"
  by (auto simp: robots_to_insert_def robot_rows_of_def)

lemma robot_inserted_for_key:
  assumes "staged_robots k stg = [s]"
  shows "filter (\<lambda>mk. dr_robot_id (mk 0) = Some k) (robots_to_insert fs stg) = robot_rows_of fs s"
proof -
  let ?Q = "\<lambda>mk. dr_robot_id (mk 0) = Some k"
  let ?g = "\<lambda>x. filter ?Q (robot_rows_of fs x)"
  have s: "sr_robot_id s = Some k"
    using assms unfolding staged_robots_def by (drule_tac filter_singleton) simp
  have other: "?g x = []" if "\<not> sr_robot_id x = Some k" for x
    using that by (auto simp: robot_rows_of_def filter_empty_conv)
  have "filter ?Q (robots_to_insert fs stg) = concat (map ?g stg)"
    by (simp add: robots_to_insert_def filter_concat_map)
  also have "\<dots> = concat (map ?g (filter (\<lambda>x. sr_robot_id x = Some k) stg))"
    by (rule concat_map_filter_only) (rule other)
  also have "\<dots> = ?g s"
    using assms by (simp add: staged_robots_def)
  also have "\<dots> = robot_rows_of fs s"
    using s by (simp add: robot_rows_of_def)
  finally show ?thesis .
qed



lemma sql_eval:
  "sql_eq (Some x) (Some y) = Some (x = y)" "sql_eq None b = None" "sql_eq a None = None"
  by (simp_all add: sql_eq_def split: option.splits)

text \<open>C1 at a failing input: \<^verbatim>\<open>dim_surgeons\<close> holds one current row, Dr. Smith of
  SURG-0001; the batch stages SURG-0001 under a new name and a second surgeon,
  SURG-0002, who is also a Dr. Smith. The staged surgeons are distinct. The UPDATE does
  not close the row of SURG-0001, because its name and specialization are among those
  of the staging table (the subquery is not correlated with the surgeon), and the INSERT
  adds the new version: SURG-0001 ends with two current rows.\<close>

theorem shared_name_two_current:
  "length (current_surgeons ''SURG-0001'' sample_dim_surgeons) = 1
   \<and> fst (load_dimension_surgeons 19500
            [sample_surgeon ''SURG-0001'' ''Dr. J. Smith'' 5, sample_surgeon ''SURG-0002'' ''Dr. Smith'' 2]
            sample_dim_surgeons)
       = [new_surgeon_row (sample_surgeon ''SURG-0001'' ''Dr. Smith'' 5) 1,
          new_surgeon_row (sample_surgeon ''SURG-0001'' ''Dr. J. Smith'' 5) 2,
          new_surgeon_row (sample_surgeon ''SURG-0002'' ''Dr. Smith'' 2) 3]
   \<and> length (current_surgeons ''SURG-0001''
        (fst (load_dimension_surgeons 19500
            [sample_surgeon ''SURG-0001'' ''Dr. J. Smith'' 5, sample_surgeon ''SURG-0002'' ''Dr. Smith'' 2]
            sample_dim_surgeons))) = 2"
  by (simp add: load_dimension_surgeons_def expire_surgeons_def expire_surgeon_where_def
        insert_surgeons_def surgeons_to_insert_def surgeon_rows_of_def surgeon_join_on_def
        surgeon_insert_where_def left_join_def col_def sql_in_def sql_row_in_def sql_row_eq_def
        sql_row_ne_def sql_eval next_key_def current_surgeons_def sample_dim_surgeons_def
        sample_surgeon_def new_surgeon_row_def Let_def)

text \<open>C2 at a failing input: one staged robot merged into an empty \<^verbatim>\<open>dim_robots\<close>, and
  the same batch merged again into the result. The second run closes the row the first
  one inserted and inserts it anew: one row loaded, two rows in the table.\<close>

theorem robot_merge_twice:
  "fst (load_dimension_robots 19500 sample_facilities [sample_robot] []) =
     [new_robot_row sample_robot (Some (hd sample_facilities)) 1]
   \<and> load_dimension_robots 19500 sample_facilities [sample_robot]
        [new_robot_row sample_robot (Some (hd sample_facilities)) 1] =
       ([close_robot 19500 (new_robot_row sample_robot (Some (hd sample_facilities)) 1),
         new_robot_row sample_robot (Some (hd sample_facilities)) 2], 1)"
  by (simp add: load_dimension_robots_def expire_robots_def expire_robot_where_def
        insert_robots_def robots_to_insert_def robot_rows_of_def facility_join_on_def
        left_join_def sql_in_def sql_eval next_key_def sample_facilities_def
        sample_robot_def new_robot_row_def close_robot_def Let_def)




section \<open>The fact merges: properties\<close>

lemma not_null: "None \<notin> set (map f xs) \<Longrightarrow> x \<in> set xs \<Longrightarrow> \<exists>v. f x = Some v"
  by (cases "f x") force+

lemma distinct_filter_le1:
  "distinct (map f xs) \<Longrightarrow> length (filter (\<lambda>x. f x = a) xs) \<le> 1"
  by (induction xs) (auto simp: filter_empty_conv image_iff)

lemma left_join_single:
  assumes "length (filter (\<lambda>d. sql_true (on d)) ds) \<le> 1"
  shows "length (left_join on ds) = 1"
proof (cases "filter (\<lambda>d. sql_true (on d)) ds")
  case Nil
  then show ?thesis by (simp add: left_join_def)
next
  case (Cons m ms)
  then show ?thesis using assms by (simp add: left_join_def)
qed

lemma robot_join_single:
  assumes "unique_current_robots robots"
  shows "length (left_join (robot_join_on s) robots) = 1"
proof (rule left_join_single, cases "sp_robot_id s")
  case None
  then have "filter (\<lambda>d. sql_true (robot_join_on s d)) robots = []"
    by (simp add: filter_empty_conv robot_join_on_def sql_true_and sql_true_eq)
  then show "length (filter (\<lambda>d. sql_true (robot_join_on s d)) robots) \<le> 1" by simp
next
  case (Some v)
  let ?cur = "filter (\<lambda>r. dr_is_current r = Some True \<and> dr_robot_id r \<noteq> None) robots"
  have "filter (\<lambda>d. sql_true (robot_join_on s d)) robots = filter (\<lambda>r. dr_robot_id r = Some v) ?cur"
    using Some by (induction robots) (auto simp: robot_join_on_def sql_true_and sql_true_eq)
  then show "length (filter (\<lambda>d. sql_true (robot_join_on s d)) robots) \<le> 1"
    using assms distinct_filter_le1 [of dr_robot_id ?cur "Some v"]
    by (simp add: unique_current_robots_def)
qed

lemma surgeon_join_single:
  assumes "unique_current_surgeons surgeons"
  shows "length (left_join (surgeon_fact_join_on s) surgeons) = 1"
proof (rule left_join_single, cases "sp_surgeon_id s")
  case None
  then have "filter (\<lambda>d. sql_true (surgeon_fact_join_on s d)) surgeons = []"
    by (simp add: filter_empty_conv surgeon_fact_join_on_def sql_true_and sql_true_eq)
  then show "length (filter (\<lambda>d. sql_true (surgeon_fact_join_on s d)) surgeons) \<le> 1" by simp
next
  case (Some v)
  let ?cur = "filter (\<lambda>r. ds_is_current r = Some True \<and> ds_surgeon_id r \<noteq> None) surgeons"
  have "filter (\<lambda>d. sql_true (surgeon_fact_join_on s d)) surgeons = filter (\<lambda>r. ds_surgeon_id r = Some v) ?cur"
    using Some by (induction surgeons) (auto simp: surgeon_fact_join_on_def sql_true_and sql_true_eq)
  then show "length (filter (\<lambda>d. sql_true (surgeon_fact_join_on s d)) surgeons) \<le> 1"
    using assms distinct_filter_le1 [of ds_surgeon_id ?cur "Some v"]
    by (simp add: unique_current_surgeons_def)
qed

lemma facility_join_single:
  assumes "unique_current_facilities facilities"
  shows "length (left_join (facility_join_on fid) facilities) = 1"
proof (rule left_join_single, cases fid)
  case None
  then have "filter (\<lambda>d. sql_true (facility_join_on fid d)) facilities = []"
    by (simp add: filter_empty_conv facility_join_on_def sql_true_and sql_true_eq)
  then show "length (filter (\<lambda>d. sql_true (facility_join_on fid d)) facilities) \<le> 1" by simp
next
  case (Some v)
  let ?cur = "filter (\<lambda>r. df_is_current r = Some True \<and> df_facility_id r \<noteq> None) facilities"
  have "filter (\<lambda>d. sql_true (facility_join_on fid d)) facilities = filter (\<lambda>r. df_facility_id r = Some v) ?cur"
    using Some by (induction facilities) (auto simp: facility_join_on_def sql_true_and sql_true_eq)
  then show "length (filter (\<lambda>d. sql_true (facility_join_on fid d)) facilities) \<le> 1"
    using assms distinct_filter_le1 [of df_facility_id ?cur "Some v"]
    by (simp add: unique_current_facilities_def)
qed

lemma length_one: "length xs = 1 \<longleftrightarrow> (\<exists>x. xs = [x])"
  by (cases xs) auto

lemma procedure_rows_single:
  assumes "unique_current_robots robots" "unique_current_surgeons surgeons"
          "unique_current_facilities facilities"
  shows "\<exists>r sg f. procedure_rows_of robots surgeons facilities s = [new_procedure_row s r sg f]"
proof -
  obtain r where r: "left_join (robot_join_on s) robots = [r]"
    using robot_join_single [OF assms(1), of s] unfolding length_one by blast
  obtain sg where sg: "left_join (surgeon_fact_join_on s) surgeons = [sg]"
    using surgeon_join_single [OF assms(2), of s] unfolding length_one by blast
  obtain f where f: "left_join (facility_join_on (sp_facility_id s)) facilities = [f]"
    using facility_join_single [OF assms(3), of "sp_facility_id s"] unfolding length_one by blast
  show ?thesis
    by (intro exI [of _ r] exI [of _ sg] exI [of _ f]) (simp add: procedure_rows_of_def r sg f)
qed

lemma procedure_rows_from:
  "mk \<in> set (procedure_rows_of robots surgeons facilities s) \<Longrightarrow> \<exists>r sg f. mk = new_procedure_row s r sg f"
  by (auto simp: procedure_rows_of_def)

lemma procedure_rows_nonempty: "procedure_rows_of robots surgeons facilities s \<noteq> []"
proof -
  obtain r rs where "left_join (robot_join_on s) robots = r # rs"
    using left_join_nonempty by (metis list.exhaust)
  moreover obtain sg sgs where "left_join (surgeon_fact_join_on s) surgeons = sg # sgs"
    using left_join_nonempty by (metis list.exhaust)
  moreover obtain f fs where "left_join (facility_join_on (sp_facility_id s)) facilities = f # fs"
    using left_join_nonempty by (metis list.exhaust)
  ultimately show ?thesis
    by (simp add: procedure_rows_of_def)
qed

lemma new_procedure_row_id [simp]: "fp_procedure_id (new_procedure_row s r sg f k) = sp_procedure_id s"
  by (simp add: new_procedure_row_def)

lemma procedure_exists_iff:
  "procedure_exists facts s \<longleftrightarrow> (\<exists>v. sp_procedure_id s = Some v \<and> Some v \<in> set (map fp_procedure_id facts))"
proof
  assume "procedure_exists facts s"
  then obtain fp x where "fp \<in> set facts" "fp_procedure_id fp = Some x" "sp_procedure_id s = Some x"
    by (auto simp: procedure_exists_def list_ex_iff sql_true_eq)
  then show "\<exists>v. sp_procedure_id s = Some v \<and> Some v \<in> set (map fp_procedure_id facts)"
    by (metis image_eqI list.set_map)
next
  assume "\<exists>v. sp_procedure_id s = Some v \<and> Some v \<in> set (map fp_procedure_id facts)"
  then obtain v where v: "sp_procedure_id s = Some v" "Some v \<in> fp_procedure_id ` set facts"
    by auto
  then obtain fp where "fp \<in> set facts" "fp_procedure_id fp = Some v"
    by (metis imageE)
  with v(1) have "sp_procedure_id s = Some v" "fp \<in> set facts" "fp_procedure_id fp = Some v"
    by simp_all
  then show "procedure_exists facts s"
    by (auto simp: procedure_exists_def list_ex_iff sql_true_eq)
qed

lemma procedures_to_insert_from:
  assumes "mk \<in> set (procedures_to_insert robots surgeons facilities facts staging)"
  shows "\<exists>s r sg f. s \<in> set staging \<and> \<not> procedure_exists facts s \<and> mk = new_procedure_row s r sg f"
  using assms by (auto simp: procedures_to_insert_def dest: procedure_rows_from)

lemma inserted_procedure_from:
  assumes "row \<in> set (assign_keys k (procedures_to_insert robots surgeons facilities facts staging))"
  shows "\<exists>s. s \<in> set staging \<and> \<not> procedure_exists facts s \<and> fp_procedure_id row = sp_procedure_id s"
proof -
  obtain mk key where "mk \<in> set (procedures_to_insert robots surgeons facilities facts staging)" "row = mk key"
    using assign_keys_member [OF assms] by blast
  then show ?thesis
    using procedures_to_insert_from by fastforce
qed

lemma load_fact_procedures_result:
  "fst (load_fact_procedures robots surgeons facilities staging facts) =
     facts @ assign_keys (next_key (map fp_procedure_key facts))
               (procedures_to_insert robots surgeons facilities facts staging)"
  by (simp add: load_fact_procedures_def Let_def procedures_to_insert_def)

lemma procedure_excluded:
  assumes "None \<notin> set (map sp_procedure_id staging)"
      and "row \<in> set (drop (length facts) (fst (load_fact_procedures robots surgeons facilities staging facts)))"
  shows "fp_procedure_id row \<notin> set (map fp_procedure_id facts)"
proof -
  have "row \<in> set (assign_keys (next_key (map fp_procedure_key facts))
                      (procedures_to_insert robots surgeons facilities facts staging))"
    using assms(2) by (simp add: load_fact_procedures_result)
  then obtain s where s: "s \<in> set staging" "\<not> procedure_exists facts s" "fp_procedure_id row = sp_procedure_id s"
    using inserted_procedure_from by blast
  then obtain v where "sp_procedure_id s = Some v"
    using not_null [OF assms(1), of s] by auto
  then show ?thesis
    using s by (simp add: procedure_exists_iff)
qed

lemma map_concat_map: "map h (concat (map f xs)) = concat (map (\<lambda>x. map h (f x)) xs)"
  by (induction xs) auto

lemma concat_map_singleton: "concat (map (\<lambda>x. [g x]) xs) = map g xs"
  by (induction xs) auto

lemma inserted_procedure_ids:
  assumes "unique_current_robots robots" "unique_current_surgeons surgeons"
          "unique_current_facilities facilities"
  shows "map fp_procedure_id (assign_keys k (procedures_to_insert robots surgeons facilities facts staging))
           = map sp_procedure_id (filter (\<lambda>s. \<not> procedure_exists facts s) staging)"
proof -
  let ?ins = "procedures_to_insert robots surgeons facilities facts staging"
  have "map fp_procedure_id (assign_keys k ?ins) = map (\<lambda>mk. fp_procedure_id (mk 0)) ?ins"
    by (rule assign_keys_map) (auto dest: procedures_to_insert_from)
  also have "\<dots> = concat (map (\<lambda>s. map (\<lambda>mk. fp_procedure_id (mk 0))
                                     (procedure_rows_of robots surgeons facilities s))
                             (filter (\<lambda>s. \<not> procedure_exists facts s) staging))"
    by (simp add: procedures_to_insert_def map_concat_map)
  also have "\<dots> = concat (map (\<lambda>s. [sp_procedure_id s]) (filter (\<lambda>s. \<not> procedure_exists facts s) staging))"
  proof -
    have "map (\<lambda>mk. fp_procedure_id (mk 0)) (procedure_rows_of robots surgeons facilities s)
            = [sp_procedure_id s]" for s
      using procedure_rows_single [OF assms, of s] by auto
    then show ?thesis by simp
  qed
  finally show ?thesis
    by (simp add: concat_map_singleton)
qed

lemma procedures_unique:
  assumes "None \<notin> set (map sp_procedure_id staging)"
      and "distinct (map sp_procedure_id staging)"
      and "distinct (map fp_procedure_id facts)"
      and "unique_current_robots robots" "unique_current_surgeons surgeons"
          "unique_current_facilities facilities"
  shows "distinct (map fp_procedure_id (fst (load_fact_procedures robots surgeons facilities staging facts)))"
proof -
  let ?new = "filter (\<lambda>s. \<not> procedure_exists facts s) staging"
  have ids: "map fp_procedure_id (fst (load_fact_procedures robots surgeons facilities staging facts))
               = map fp_procedure_id facts @ map sp_procedure_id ?new"
    by (simp add: load_fact_procedures_result inserted_procedure_ids [OF assms(4-6)])
  have new: "distinct (map sp_procedure_id ?new)"
    using assms(2) by (rule distinct_map_filter)
  have "sp_procedure_id s \<notin> set (map fp_procedure_id facts)" if s: "s \<in> set ?new" for s
  proof -
    obtain v where "sp_procedure_id s = Some v"
      using not_null [OF assms(1), of s] s by auto
    then show ?thesis
      using s by (simp add: procedure_exists_iff)
  qed
  then have "set (map fp_procedure_id facts) \<inter> set (map sp_procedure_id ?new) = {}"
    by (auto simp: disjoint_iff) (metis imageI)
  then show ?thesis
    using assms(3) new by (simp only: ids distinct_append)
qed

lemma procedure_exists_mono: "procedure_exists facts s \<Longrightarrow> procedure_exists (facts @ rest) s"
  by (auto simp: procedure_exists_def list_ex_iff)

lemma procedures_rerun:
  assumes "None \<notin> set (map sp_procedure_id staging)"
  shows "load_fact_procedures robots surgeons facilities staging
           (fst (load_fact_procedures robots surgeons facilities staging facts))
         = (fst (load_fact_procedures robots surgeons facilities staging facts), 0)"
proof -
  let ?ins = "procedures_to_insert robots surgeons facilities facts staging"
  let ?k = "next_key (map fp_procedure_key facts)"
  let ?facts = "facts @ assign_keys ?k ?ins"
  have "procedure_exists ?facts s" if s: "s \<in> set staging" for s
  proof (cases "procedure_exists facts s")
    case True
    then show ?thesis by (rule procedure_exists_mono)
  next
    case False
    obtain v where v: "sp_procedure_id s = Some v"
      using not_null [OF assms s] by auto
    obtain mk where mk: "mk \<in> set (procedure_rows_of robots surgeons facilities s)"
      using procedure_rows_nonempty [of robots surgeons facilities s] by (meson last_in_set)
    then have "mk \<in> set ?ins"
      using s False by (auto simp: procedures_to_insert_def)
    then obtain key where key: "mk key \<in> set (assign_keys ?k ?ins)"
      using member_assign_keys by blast
    have "fp_procedure_id (mk key) = Some v"
      using procedure_rows_from [OF mk] v by auto
    then show ?thesis
      using key v by (force simp: procedure_exists_iff)
  qed
  then have "filter (\<lambda>s. \<not> procedure_exists ?facts s) staging = []"
    by (simp add: filter_empty_conv)
  then have "procedures_to_insert robots surgeons facilities ?facts staging = []"
    by (simp add: procedures_to_insert_def)
  then have "load_fact_procedures robots surgeons facilities staging ?facts = (?facts, 0)"
    by (simp add: load_fact_procedures_def)
  then show ?thesis
    by (simp add: load_fact_procedures_result)
qed

lemma telemetry_rows_iff:
  "row \<in> set (telemetry_rows_of procedures telemetry st) \<longleftrightarrow>
     (\<exists>fp \<in> set procedures. sql_true (telemetry_join_on st fp) \<and> \<not> telemetry_exists telemetry st fp
        \<and> row = new_telemetry_row st fp)"
  by (auto simp: telemetry_rows_of_def inner_join_def)

lemma telemetry_key_new [simp]:
  "telemetry_key (new_telemetry_row st fp) = (Some (fp_procedure_key fp), st_sample_timestamp st)"
  by (simp add: telemetry_key_def new_telemetry_row_def)

lemma telemetry_exists_iff:
  assumes "st_sample_timestamp st = Some ts"
  shows "telemetry_exists telemetry st fp \<longleftrightarrow>
           (Some (fp_procedure_key fp), Some ts) \<in> set (map telemetry_key telemetry)"
proof
  assume "telemetry_exists telemetry st fp"
  then obtain fpt where "fpt \<in> set telemetry" "ft_procedure_key fpt = Some (fp_procedure_key fp)"
      "ft_sample_timestamp fpt = Some ts"
    using assms by (auto simp: telemetry_exists_def list_ex_iff sql_true_and sql_true_eq)
  then have "telemetry_key fpt = (Some (fp_procedure_key fp), Some ts)" "fpt \<in> set telemetry"
    by (simp_all add: telemetry_key_def)
  then show "(Some (fp_procedure_key fp), Some ts) \<in> set (map telemetry_key telemetry)"
    by (metis image_eqI list.set_map)
next
  assume "(Some (fp_procedure_key fp), Some ts) \<in> set (map telemetry_key telemetry)"
  then obtain fpt where "fpt \<in> set telemetry" "telemetry_key fpt = (Some (fp_procedure_key fp), Some ts)"
    by (metis (no_types, lifting) imageE list.set_map)
  then show "telemetry_exists telemetry st fp"
    using assms by (auto simp: telemetry_exists_def list_ex_iff sql_true_and sql_true_eq telemetry_key_def)
qed

lemma load_telemetry_result:
  "load_telemetry_to_redshift procedures staging telemetry =
     (telemetry @ telemetry_to_insert procedures telemetry staging,
      length (telemetry_to_insert procedures telemetry staging))"
  by (simp add: load_telemetry_to_redshift_def Let_def)

lemma inserted_telemetry_from:
  assumes "row \<in> set (telemetry_to_insert procedures telemetry staging)"
  shows "\<exists>st fp. st \<in> set staging \<and> fp \<in> set procedures \<and> sql_true (telemetry_join_on st fp)
           \<and> \<not> telemetry_exists telemetry st fp \<and> row = new_telemetry_row st fp"
  using assms by (auto simp: telemetry_to_insert_def telemetry_rows_iff)

lemma telemetry_excluded:
  assumes "None \<notin> set (map st_sample_timestamp staging)"
      and "row \<in> set (telemetry_to_insert procedures telemetry staging)"
  shows "telemetry_key row \<notin> set (map telemetry_key telemetry)"
proof -
  obtain st fp where r: "st \<in> set staging" "\<not> telemetry_exists telemetry st fp" "row = new_telemetry_row st fp"
    using inserted_telemetry_from [OF assms(2)] by blast
  obtain ts where "st_sample_timestamp st = Some ts"
    using not_null [OF assms(1) r(1)] by auto
  then show ?thesis
    using r telemetry_exists_iff [of st ts telemetry fp] by simp
qed

lemma distinct_concat_map:
  assumes "distinct (map g xs)"
      and "\<And>x. x \<in> set xs \<Longrightarrow> distinct (f x)"
      and "\<And>x y. x \<in> set xs \<Longrightarrow> y \<in> set xs \<Longrightarrow> g x \<noteq> g y \<Longrightarrow> set (f x) \<inter> set (f y) = {}"
  shows "distinct (concat (map f xs))"
  using assms
proof (induction xs)
  case Nil
  then show ?case by simp
next
  case (Cons a xs)
  have "set (f a) \<inter> set (f x) = {}" if x: "x \<in> set xs" for x
  proof -
    have "g a \<noteq> g x" using Cons.prems(1) x by auto
    then show ?thesis using Cons.prems(3) [of a x] x by simp
  qed
  moreover have "distinct (concat (map f xs))"
    using Cons by simp
  moreover have "distinct (f a)"
    using Cons.prems(2) by simp
  ultimately show ?case by auto
qed

lemma telemetry_keys_of_row:
  "map telemetry_key (telemetry_rows_of procedures telemetry st) =
     map (\<lambda>fp. (Some (fp_procedure_key fp), st_sample_timestamp st))
         (filter (\<lambda>fp. \<not> telemetry_exists telemetry st fp) (inner_join (telemetry_join_on st) procedures))"
  by (simp add: telemetry_rows_of_def)

lemma telemetry_rows_distinct:
  assumes "distinct (map fp_procedure_key procedures)"
  shows "distinct (map telemetry_key (telemetry_rows_of procedures telemetry st))"
proof -
  have "distinct (map fp_procedure_key
          (filter (\<lambda>fp. \<not> telemetry_exists telemetry st fp) (inner_join (telemetry_join_on st) procedures)))"
    using assms by (simp add: inner_join_def distinct_map_filter)
  then have "distinct (map (\<lambda>fp. (Some (fp_procedure_key fp), st_sample_timestamp st))
          (filter (\<lambda>fp. \<not> telemetry_exists telemetry st fp) (inner_join (telemetry_join_on st) procedures)))"
    by (simp add: distinct_map inj_on_def)
  then show ?thesis
    by (simp only: telemetry_keys_of_row)
qed

lemma telemetry_rows_disjoint:
  assumes keys: "distinct (map fp_procedure_key procedures)"
      and ne: "staged_telemetry_key st1 \<noteq> staged_telemetry_key st2"
  shows "set (map telemetry_key (telemetry_rows_of procedures telemetry st1))
           \<inter> set (map telemetry_key (telemetry_rows_of procedures telemetry st2)) = {}"
proof (rule ccontr)
  assume "\<not> ?thesis"
  then obtain key where "key \<in> telemetry_key ` set (telemetry_rows_of procedures telemetry st1)"
      "key \<in> telemetry_key ` set (telemetry_rows_of procedures telemetry st2)"
    by auto
  then obtain r1 r2 where r: "r1 \<in> set (telemetry_rows_of procedures telemetry st1)"
      "r2 \<in> set (telemetry_rows_of procedures telemetry st2)" "telemetry_key r1 = telemetry_key r2"
    by (metis imageE)
  then obtain fp1 fp2 where fp: "fp1 \<in> set procedures" "sql_true (telemetry_join_on st1 fp1)"
      "r1 = new_telemetry_row st1 fp1" "fp2 \<in> set procedures" "sql_true (telemetry_join_on st2 fp2)"
      "r2 = new_telemetry_row st2 fp2"
    by (auto simp: telemetry_rows_iff)
  from r(3) fp have same: "fp_procedure_key fp1 = fp_procedure_key fp2"
      "st_sample_timestamp st1 = st_sample_timestamp st2"
    by simp_all
  have "inj_on fp_procedure_key (set procedures)"
    using keys by (simp add: distinct_map)
  then have "fp1 = fp2"
    using same(1) fp(1,4) by (auto dest: inj_onD)
  then have "st_procedure_id st1 = st_procedure_id st2"
    using fp(2,5) by (auto simp: telemetry_join_on_def sql_true_eq)
  then show False
    using ne same(2) by (simp add: staged_telemetry_key_def)
qed

lemma telemetry_unique:
  assumes "None \<notin> set (map st_sample_timestamp staging)"
      and "distinct (map staged_telemetry_key staging)"
      and "distinct (map telemetry_key telemetry)"
      and "distinct (map fp_procedure_key procedures)"
  shows "distinct (map telemetry_key (fst (load_telemetry_to_redshift procedures staging telemetry)))"
proof -
  let ?ins = "telemetry_to_insert procedures telemetry staging"
  have "map telemetry_key ?ins =
          concat (map (\<lambda>st. map telemetry_key (telemetry_rows_of procedures telemetry st)) staging)"
    by (simp add: telemetry_to_insert_def map_concat_map)
  moreover have "distinct (concat (map (\<lambda>st. map telemetry_key (telemetry_rows_of procedures telemetry st)) staging))"
    using assms(2)
  proof (rule distinct_concat_map)
    show "distinct (map telemetry_key (telemetry_rows_of procedures telemetry x))" for x
      using assms(4) by (rule telemetry_rows_distinct)
    show "set (map telemetry_key (telemetry_rows_of procedures telemetry x))
           \<inter> set (map telemetry_key (telemetry_rows_of procedures telemetry y)) = {}"
      if "staged_telemetry_key x \<noteq> staged_telemetry_key y" for x y
      using assms(4) that by (rule telemetry_rows_disjoint)
  qed
  ultimately have new: "distinct (map telemetry_key ?ins)"
    by simp
  have "set (map telemetry_key telemetry) \<inter> set (map telemetry_key ?ins) = {}"
    using telemetry_excluded [OF assms(1)] by (auto simp: disjoint_iff) (metis imageI list.set_map)
  then show ?thesis
    using assms(3) new by (simp add: load_telemetry_result)
qed

lemma telemetry_rerun:
  assumes "None \<notin> set (map st_sample_timestamp staging)"
  shows "load_telemetry_to_redshift procedures staging
           (fst (load_telemetry_to_redshift procedures staging telemetry))
         = (fst (load_telemetry_to_redshift procedures staging telemetry), 0)"
proof -
  let ?ins = "telemetry_to_insert procedures telemetry staging"
  have "telemetry_exists (telemetry @ ?ins) st fp"
    if st: "st \<in> set staging" and fp: "fp \<in> set procedures" "sql_true (telemetry_join_on st fp)" for st fp
  proof -
    obtain ts where ts: "st_sample_timestamp st = Some ts"
      using not_null [OF assms st] by auto
    show ?thesis
    proof (cases "telemetry_exists telemetry st fp")
      case True
      then show ?thesis by (auto simp: telemetry_exists_def list_ex_iff)
    next
      case False
      then have "new_telemetry_row st fp \<in> set ?ins"
        using st fp by (auto simp: telemetry_to_insert_def telemetry_rows_iff)
      then have "(Some (fp_procedure_key fp), Some ts) \<in> set (map telemetry_key (telemetry @ ?ins))"
        using ts by (metis (no_types, lifting) UnI2 image_eqI list.set_map set_append telemetry_key_new)
      then show ?thesis
        by (simp only: telemetry_exists_iff [OF ts])
    qed
  qed
  then have "telemetry_rows_of procedures (telemetry @ ?ins) st = []" if "st \<in> set staging" for st
    using that by (auto simp: telemetry_rows_of_def inner_join_def filter_empty_conv)
  then have "telemetry_to_insert procedures (telemetry @ ?ins) staging = []"
    by (simp add: telemetry_to_insert_def)
  then show ?thesis
    by (simp add: load_telemetry_result)
qed

lemma left_join_resolved:
  assumes "\<And>d. sql_true (on d) \<longleftrightarrow> matches d" "r \<in> set (left_join on ds)"
  shows "resolved matches key ds (map_option key r)"
proof (cases r)
  case None
  then have "\<not> (\<exists>d \<in> set ds. sql_true (on d))"
    using assms(2) by (simp add: left_join_None)
  then show ?thesis
    using None assms(1) by (simp add: resolved_def list_ex_iff)
next
  case (Some d)
  then have "d \<in> set ds \<and> sql_true (on d)"
    using assms(2) by (simp add: left_join_Some)
  then show ?thesis
    using Some assms(1) by (auto simp: resolved_def list_ex_iff)
qed

lemma robot_join_on_iff: "sql_true (robot_join_on s r) \<longleftrightarrow> current_robot_of s r"
  by (auto simp: robot_join_on_def current_robot_of_def sql_true_and sql_true_eq)

lemma surgeon_fact_join_on_iff: "sql_true (surgeon_fact_join_on s sg) \<longleftrightarrow> current_surgeon_of s sg"
  by (auto simp: surgeon_fact_join_on_def current_surgeon_of_def sql_true_and sql_true_eq)

lemma facility_join_on_iff: "sql_true (facility_join_on (sp_facility_id s) f) \<longleftrightarrow> current_facility_of s f"
  by (auto simp: facility_join_on_def current_facility_of_def sql_true_and sql_true_eq)

lemma telemetry_join_on_iff: "sql_true (telemetry_join_on st fp) \<longleftrightarrow> procedure_of st fp"
  by (auto simp: telemetry_join_on_def procedure_of_def sql_true_eq)

lemma carries_new: "carries s (new_procedure_row s r sg f key)"
  by (simp add: carries_def new_procedure_row_def)

lemma procedure_rows_resolved:
  assumes "mk \<in> set (procedure_rows_of robots surgeons facilities s)"
  shows "carries s (mk key) \<and> fks_resolved robots surgeons facilities s (mk key)"
proof -
  obtain r sg f where j: "r \<in> set (left_join (robot_join_on s) robots)"
      "sg \<in> set (left_join (surgeon_fact_join_on s) surgeons)"
      "f \<in> set (left_join (facility_join_on (sp_facility_id s)) facilities)"
      and mk: "mk = new_procedure_row s r sg f"
    using assms by (auto simp: procedure_rows_of_def)
  have "resolved (current_robot_of s) dr_robot_key robots (map_option dr_robot_key r)"
    using robot_join_on_iff j(1) by (rule left_join_resolved)
  moreover have "resolved (current_surgeon_of s) ds_surgeon_key surgeons (map_option ds_surgeon_key sg)"
    using surgeon_fact_join_on_iff j(2) by (rule left_join_resolved)
  moreover have "resolved (current_facility_of s) df_facility_key facilities (map_option df_facility_key f)"
    using facility_join_on_iff j(3) by (rule left_join_resolved)
  ultimately show ?thesis
    by (simp add: mk carries_new fks_resolved_def) (simp add: new_procedure_row_def)
qed

lemma orphan_loaded:
  assumes "s \<in> set staging" "\<not> procedure_exists facts s"
  shows "\<exists>row \<in> set (drop (length facts) (fst (load_fact_procedures robots surgeons facilities staging facts))).
           carries s row \<and> fks_resolved robots surgeons facilities s row"
proof -
  let ?ins = "procedures_to_insert robots surgeons facilities facts staging"
  obtain mk where mk: "mk \<in> set (procedure_rows_of robots surgeons facilities s)"
    using procedure_rows_nonempty [of robots surgeons facilities s] by (meson last_in_set)
  then have "mk \<in> set ?ins"
    using assms by (auto simp: procedures_to_insert_def)
  then have "\<exists>key. mk key \<in> set (assign_keys (next_key (map fp_procedure_key facts)) ?ins)"
    by (rule member_assign_keys)
  then obtain key where "mk key \<in> set (assign_keys (next_key (map fp_procedure_key facts)) ?ins)"
    by blast
  then have "mk key \<in> set (drop (length facts) (fst (load_fact_procedures robots surgeons facilities staging facts)))"
    by (simp add: load_fact_procedures_result)
  then show ?thesis
    using procedure_rows_resolved [OF mk, of key] by blast
qed

lemma loaded_resolved:
  assumes "row \<in> set (drop (length facts) (fst (load_fact_procedures robots surgeons facilities staging facts)))"
  shows "\<exists>s \<in> set staging. \<not> procedure_exists facts s \<and> carries s row
           \<and> fks_resolved robots surgeons facilities s row"
proof -
  let ?ins = "procedures_to_insert robots surgeons facilities facts staging"
  have "row \<in> set (assign_keys (next_key (map fp_procedure_key facts)) ?ins)"
    using assms by (simp add: load_fact_procedures_result)
  then have "\<exists>mk \<in> set ?ins. \<exists>key. row = mk key"
    by (rule assign_keys_member)
  then obtain mk key where mk: "mk \<in> set ?ins" "row = mk key"
    by blast
  then obtain s where s: "s \<in> set staging" "\<not> procedure_exists facts s"
      "mk \<in> set (procedure_rows_of robots surgeons facilities s)"
    by (auto simp: procedures_to_insert_def)
  then show ?thesis
    using procedure_rows_resolved [OF s(3), of key] mk(2) by blast
qed

lemma telemetry_orphan_dropped:
  assumes "\<not> list_ex (procedure_of st) procedures"
  shows "telemetry_rows_of procedures telemetry st = []"
  using assms
  by (auto simp: telemetry_rows_of_def inner_join_def filter_empty_conv list_ex_iff telemetry_join_on_iff)

lemma telemetry_orphan_in_batch:
  assumes "\<not> list_ex (procedure_of st) procedures"
  shows "load_telemetry_to_redshift procedures (before @ st # after) telemetry
           = load_telemetry_to_redshift procedures (before @ after) telemetry"
  by (simp add: load_telemetry_result telemetry_to_insert_def telemetry_orphan_dropped [OF assms])

lemma sample_load_procedures:
  "load_fact_procedures [] sample_dim_surgeons sample_facilities [sample_procedure] [] = ([sample_fact], 1)"
  by (simp add: load_fact_procedures_def procedures_to_insert_def procedure_rows_of_def
        procedure_exists_def left_join_def robot_join_on_def surgeon_fact_join_on_def
        facility_join_on_def sql_eval next_key_def sample_fact_def sample_procedure_def
        sample_dim_surgeons_def sample_facilities_def sample_surgeon_def new_surgeon_row_def)

lemma sample_load_telemetry:
  "load_telemetry_to_redshift [sample_fact] [sample_staged_telemetry ''PROC-0001''] [] =
     ([new_telemetry_row (sample_staged_telemetry ''PROC-0001'') sample_fact], 1)"
  by (simp add: load_telemetry_to_redshift_def telemetry_to_insert_def telemetry_rows_of_def
        inner_join_def telemetry_join_on_def telemetry_exists_def sql_eval
        sample_fact_def sample_procedure_def sample_staged_telemetry_def new_procedure_row_def)

text \<open>C3, as the code has it, for staged rows whose natural key is not NULL. No row that
  a fact merge inserts has a natural key that was in the fact store before the run, and
  the same batch merged again into the result inserts nothing. The natural keys stay
  distinct when they are distinct in the store and in the staged batch, and each staged
  row joins one row at most: no two current rows of a dimension share a natural key
  (procedures), the surrogate keys of \<^verbatim>\<open>fact_procedures\<close> are distinct (telemetry).\<close>

theorem fact_merge_excludes_loaded_keys:
  assumes "None \<notin> set (map sp_procedure_id staging)"
      and "None \<notin> set (map st_sample_timestamp tstaging)"
  shows "(\<forall>row \<in> set (drop (length facts) (fst (load_fact_procedures robots surgeons facilities staging facts))).
            fp_procedure_id row \<notin> set (map fp_procedure_id facts))
       \<and> load_fact_procedures robots surgeons facilities staging
            (fst (load_fact_procedures robots surgeons facilities staging facts))
           = (fst (load_fact_procedures robots surgeons facilities staging facts), 0)
       \<and> (distinct (map sp_procedure_id staging) \<and> distinct (map fp_procedure_id facts)
            \<and> unique_current_robots robots \<and> unique_current_surgeons surgeons
            \<and> unique_current_facilities facilities \<longrightarrow>
          distinct (map fp_procedure_id (fst (load_fact_procedures robots surgeons facilities staging facts))))
       \<and> (\<forall>row \<in> set (drop (length telemetry) (fst (load_telemetry_to_redshift procedures tstaging telemetry))).
            telemetry_key row \<notin> set (map telemetry_key telemetry))
       \<and> load_telemetry_to_redshift procedures tstaging
            (fst (load_telemetry_to_redshift procedures tstaging telemetry))
           = (fst (load_telemetry_to_redshift procedures tstaging telemetry), 0)
       \<and> (distinct (map staged_telemetry_key tstaging) \<and> distinct (map telemetry_key telemetry)
            \<and> distinct (map fp_procedure_key procedures) \<longrightarrow>
          distinct (map telemetry_key (fst (load_telemetry_to_redshift procedures tstaging telemetry))))"
proof (intro conjI ballI impI)
  fix row
  assume "row \<in> set (drop (length facts) (fst (load_fact_procedures robots surgeons facilities staging facts)))"
  with assms(1) show "fp_procedure_id row \<notin> set (map fp_procedure_id facts)"
    by (rule procedure_excluded)
next
  show "load_fact_procedures robots surgeons facilities staging
            (fst (load_fact_procedures robots surgeons facilities staging facts))
           = (fst (load_fact_procedures robots surgeons facilities staging facts), 0)"
    using assms(1) by (rule procedures_rerun)
next
  assume "distinct (map sp_procedure_id staging) \<and> distinct (map fp_procedure_id facts)
            \<and> unique_current_robots robots \<and> unique_current_surgeons surgeons
            \<and> unique_current_facilities facilities"
  then show "distinct (map fp_procedure_id (fst (load_fact_procedures robots surgeons facilities staging facts)))"
    using procedures_unique [OF assms(1)] by blast
next
  fix row
  assume "row \<in> set (drop (length telemetry) (fst (load_telemetry_to_redshift procedures tstaging telemetry)))"
  then have "row \<in> set (telemetry_to_insert procedures telemetry tstaging)"
    by (simp add: load_telemetry_result)
  with assms(2) show "telemetry_key row \<notin> set (map telemetry_key telemetry)"
    by (rule telemetry_excluded)
next
  show "load_telemetry_to_redshift procedures tstaging
            (fst (load_telemetry_to_redshift procedures tstaging telemetry))
           = (fst (load_telemetry_to_redshift procedures tstaging telemetry), 0)"
    using assms(2) by (rule telemetry_rerun)
next
  assume "distinct (map staged_telemetry_key tstaging) \<and> distinct (map telemetry_key telemetry)
            \<and> distinct (map fp_procedure_key procedures)"
  then show "distinct (map telemetry_key (fst (load_telemetry_to_redshift procedures tstaging telemetry)))"
    using telemetry_unique [OF assms(2)] by blast
qed

theorem fact_merge_excludes_loaded_keys_witness:
  "None \<notin> set (map sp_procedure_id [sample_procedure])
   \<and> None \<notin> set (map st_sample_timestamp [sample_staged_telemetry ''PROC-0001''])
   \<and> load_fact_procedures [] sample_dim_surgeons sample_facilities [sample_procedure] [sample_fact]
       = ([sample_fact], 0)
   \<and> distinct (map fp_procedure_id
        (fst (load_fact_procedures [] sample_dim_surgeons sample_facilities [sample_procedure] [])))
   \<and> load_telemetry_to_redshift [sample_fact] [sample_staged_telemetry ''PROC-0001'']
        [new_telemetry_row (sample_staged_telemetry ''PROC-0001'') sample_fact]
       = ([new_telemetry_row (sample_staged_telemetry ''PROC-0001'') sample_fact], 0)
   \<and> distinct (map telemetry_key
        (fst (load_telemetry_to_redshift [sample_fact] [sample_staged_telemetry ''PROC-0001''] [])))"
proof -
  have p: "None \<notin> set (map sp_procedure_id [sample_procedure])"
    by (simp add: sample_procedure_def)
  have t: "None \<notin> set (map st_sample_timestamp [sample_staged_telemetry ''PROC-0001''])"
    by (simp add: sample_staged_telemetry_def)
  have u: "unique_current_robots []" "unique_current_surgeons sample_dim_surgeons"
      "unique_current_facilities sample_facilities" "distinct (map fp_procedure_key [sample_fact])"
      "distinct (map sp_procedure_id [sample_procedure])"
      "distinct (map staged_telemetry_key [sample_staged_telemetry ''PROC-0001''])"
    by (simp_all add: unique_current_robots_def unique_current_surgeons_def unique_current_facilities_def
          sample_dim_surgeons_def sample_facilities_def)
  note w = fact_merge_excludes_loaded_keys [OF p t, of "[]" "[]" sample_dim_surgeons sample_facilities
             "[]" "[sample_fact]"]
  have rerun: "load_fact_procedures [] sample_dim_surgeons sample_facilities [sample_procedure] [sample_fact]
       = ([sample_fact], 0)"
    using w sample_load_procedures by simp
  have uniq: "distinct (map fp_procedure_id
        (fst (load_fact_procedures [] sample_dim_surgeons sample_facilities [sample_procedure] [])))"
    using w u by simp
  have trerun: "load_telemetry_to_redshift [sample_fact] [sample_staged_telemetry ''PROC-0001'']
        [new_telemetry_row (sample_staged_telemetry ''PROC-0001'') sample_fact]
       = ([new_telemetry_row (sample_staged_telemetry ''PROC-0001'') sample_fact], 0)"
    using w sample_load_telemetry by simp
  have tuniq: "distinct (map telemetry_key
        (fst (load_telemetry_to_redshift [sample_fact] [sample_staged_telemetry ''PROC-0001''] [])))"
    using w u by simp
  from p t rerun uniq trerun tuniq show ?thesis
    by (intro conjI)
qed

text \<open>C3, as stated, fails: a batch that holds the same sample twice, or the same
  procedure twice, is loaded twice. The merge compares staged rows with the store, not
  with each other.\<close>

theorem duplicate_in_batch_loaded_twice:
  "fst (load_telemetry_to_redshift [sample_fact]
          [sample_staged_telemetry ''PROC-0001'', sample_staged_telemetry ''PROC-0001''] []) =
     [new_telemetry_row (sample_staged_telemetry ''PROC-0001'') sample_fact,
      new_telemetry_row (sample_staged_telemetry ''PROC-0001'') sample_fact]
   \<and> map fp_procedure_id
        (fst (load_fact_procedures [] sample_dim_surgeons sample_facilities
                [sample_procedure, sample_procedure] []))
       = [Some ''PROC-0001'', Some ''PROC-0001'']"
  by (simp add: load_telemetry_to_redshift_def telemetry_to_insert_def telemetry_rows_of_def
        inner_join_def telemetry_join_on_def telemetry_exists_def sql_eval
        sample_fact_def sample_procedure_def sample_staged_telemetry_def new_procedure_row_def
        load_fact_procedures_def procedures_to_insert_def procedure_rows_of_def
        procedure_exists_def left_join_def robot_join_on_def surgeon_fact_join_on_def
        facility_join_on_def next_key_def
        sample_dim_surgeons_def sample_facilities_def sample_surgeon_def new_surgeon_row_def)

text \<open>C5, as the code has it. A staged procedure that is not in the fact store is loaded:
  a row that carries it is inserted, and every inserted row has each dimension key
  resolved against the current rows with the staged natural key, NULL when there is
  none. A staged telemetry row whose procedure id is on no row of
  \<^verbatim>\<open>fact_procedures\<close> is not loaded: the run is the run without it (inner join).\<close>

theorem orphan_fact_policy:
  assumes "s \<in> set staging" and "\<not> procedure_exists facts s"
  shows "(\<exists>row \<in> set (drop (length facts) (fst (load_fact_procedures robots surgeons facilities staging facts))).
            carries s row \<and> fks_resolved robots surgeons facilities s row)
       \<and> (\<forall>row \<in> set (drop (length facts) (fst (load_fact_procedures robots surgeons facilities staging facts))).
            \<exists>s' \<in> set staging. \<not> procedure_exists facts s' \<and> carries s' row
               \<and> fks_resolved robots surgeons facilities s' row)
       \<and> (\<not> list_ex (procedure_of st) procedures \<longrightarrow>
            load_telemetry_to_redshift procedures (before @ st # after) telemetry
              = load_telemetry_to_redshift procedures (before @ after) telemetry)"
  using orphan_loaded [OF assms] loaded_resolved telemetry_orphan_in_batch by blast

theorem orphan_fact_policy_witness:
  "sample_procedure \<in> set [sample_procedure]
   \<and> \<not> procedure_exists [] sample_procedure
   \<and> (\<exists>row \<in> set (fst (load_fact_procedures [] sample_dim_surgeons sample_facilities [sample_procedure] [])).
         carries sample_procedure row \<and> fp_robot_key row = None \<and> fp_surgeon_key row = Some 1
         \<and> fp_facility_key row = Some 1)
   \<and> load_telemetry_to_redshift [sample_fact]
        [sample_staged_telemetry ''PROC-0002'', sample_staged_telemetry ''PROC-0001''] []
       = load_telemetry_to_redshift [sample_fact] [sample_staged_telemetry ''PROC-0001''] []"
proof -
  have s: "sample_procedure \<in> set [sample_procedure]" by simp
  have n: "\<not> procedure_exists [] sample_procedure" by (simp add: procedure_exists_def)
  have o: "\<not> list_ex (procedure_of (sample_staged_telemetry ''PROC-0002'')) [sample_fact]"
    by (simp add: procedure_of_def sample_staged_telemetry_def sample_fact_def sample_procedure_def)
  note w = orphan_fact_policy [OF s n, of "[]" sample_dim_surgeons sample_facilities
             "sample_staged_telemetry ''PROC-0002''" "[sample_fact]" "[]"
             "[sample_staged_telemetry ''PROC-0001'']" "[]"]
  from w obtain row where row:
      "row \<in> set (fst (load_fact_procedures [] sample_dim_surgeons sample_facilities [sample_procedure] []))"
      "carries sample_procedure row" "fks_resolved [] sample_dim_surgeons sample_facilities sample_procedure row"
    by auto
  have "row = sample_fact"
    using row(1) by (simp add: sample_load_procedures)
  then have "fp_robot_key row = None \<and> fp_surgeon_key row = Some 1 \<and> fp_facility_key row = Some 1"
    by (simp add: sample_fact_def new_procedure_row_def sample_dim_surgeons_def new_surgeon_row_def
          sample_facilities_def)
  with row have "\<exists>row \<in> set (fst (load_fact_procedures [] sample_dim_surgeons sample_facilities [sample_procedure] [])).
         carries sample_procedure row \<and> fp_robot_key row = None \<and> fp_surgeon_key row = Some 1
         \<and> fp_facility_key row = Some 1"
    by blast
  moreover have "load_telemetry_to_redshift [sample_fact]
        [sample_staged_telemetry ''PROC-0002'', sample_staged_telemetry ''PROC-0001''] []
       = load_telemetry_to_redshift [sample_fact] [sample_staged_telemetry ''PROC-0001''] []"
    using w o by simp
  ultimately show ?thesis
    using s n by (intro conjI)
qed

text \<open>C5, as stated, fails for telemetry: of two staged samples, the one of a procedure
  that is not in \<^verbatim>\<open>fact_procedures\<close> is dropped, not loaded with a NULL key.\<close>

theorem telemetry_orphan_not_loaded:
  "load_telemetry_to_redshift [sample_fact]
     [sample_staged_telemetry ''PROC-0002'', sample_staged_telemetry ''PROC-0001''] [] =
     ([new_telemetry_row (sample_staged_telemetry ''PROC-0001'') sample_fact], 1)"
  by (simp add: load_telemetry_to_redshift_def telemetry_to_insert_def telemetry_rows_of_def
        inner_join_def telemetry_join_on_def telemetry_exists_def sql_eval
        sample_fact_def sample_procedure_def sample_staged_telemetry_def new_procedure_row_def)

section \<open>The dimension merges: what does hold of the current rows\<close>

lemma current_robots_rows:
  "current_robots k tab = filter (\<lambda>d. dr_is_current d = Some True) (robot_rows k tab)"
  by (induction tab) (auto simp: current_robots_def robot_rows_def)

lemma robot_rows_single:
  assumes "unique_current_facilities facilities"
  shows "\<exists>f. robot_rows_of facilities s = [new_robot_row s f]"
proof -
  obtain f where "left_join (facility_join_on (sr_facility_id s)) facilities = [f]"
    using facility_join_single [OF assms, of "sr_facility_id s"] unfolding length_one by blast
  then show ?thesis
    by (intro exI [of _ f]) (simp add: robot_rows_of_def)
qed

text \<open>After the robot merge, a robot with one staged row has exactly one current row, the
  new row of the staged one, whatever rows it had before, when no two current facilities
  share a facility id.\<close>

theorem robot_merge_one_current:
  assumes "staged_robots k staging = [s]"
      and "unique_current_facilities facilities"
  shows "\<exists>f key. current_robots k (fst (load_dimension_robots current_date facilities staging tab))
                    = [new_robot_row s f key]"
proof -
  have s: "s \<in> set staging \<and> sr_robot_id s = Some k"
    using assms(1) unfolding staged_robots_def by (rule filter_singleton)
  let ?tab = "expire_robots current_date staging tab"
  let ?news = "filter (\<lambda>r. dr_robot_id r = Some k)
                 (assign_keys (next_key (map dr_robot_key ?tab)) (robots_to_insert facilities staging))"
  obtain f where f: "robot_rows_of facilities s = [new_robot_row s f]"
    using robot_rows_single [OF assms(2)] by blast
  have "list_all2 (\<lambda>mk r. \<exists>key. r = mk key)
          (filter (\<lambda>mk. dr_robot_id (mk 0) = Some k) (robots_to_insert facilities staging)) ?news"
    by (rule assign_keys_filter) (auto dest: robots_to_insert_id)
  then have "list_all2 (\<lambda>mk r. \<exists>key. r = mk key) [new_robot_row s f] ?news"
    by (simp add: robot_inserted_for_key [OF assms(1)] f)
  then obtain key where news: "?news = [new_robot_row s f key]"
    by (auto simp: list_all2_Cons1)
  have closes: "sql_true (expire_robot_where staging r) \<longleftrightarrow> dr_is_current r = Some True"
    if "r \<in> set (robot_rows k tab)" for r
    using that s by (force simp: expire_robot_where_true robot_rows_def)
  have "robot_rows k ?tab =
          map (\<lambda>r. if dr_is_current r = Some True then close_robot current_date r else r) (robot_rows k tab)"
    using closes by (simp add: robot_rows_expire cong: map_cong)
  then have old: "filter (\<lambda>d. dr_is_current d = Some True) (robot_rows k ?tab) = []"
    by (auto simp: filter_empty_conv)
  have "robot_rows k (fst (load_dimension_robots current_date facilities staging tab))
          = robot_rows k ?tab @ ?news"
    using s by (auto simp: load_dimension_robots_def Let_def insert_robots_def robot_rows_def)
  then have "current_robots k (fst (load_dimension_robots current_date facilities staging tab))
          = [new_robot_row s f key]"
    by (simp add: current_robots_rows old news)
  then show ?thesis by blast
qed

theorem robot_merge_one_current_witness:
  "staged_robots ''ROB-0001'' [sample_robot] = [sample_robot]
   \<and> unique_current_facilities sample_facilities
   \<and> (\<exists>f key. current_robots ''ROB-0001''
         (fst (load_dimension_robots 19500 sample_facilities [sample_robot]
                 [new_robot_row sample_robot None 1, new_robot_row sample_robot None 2]))
        = [new_robot_row sample_robot f key])"
proof -
  have a: "staged_robots ''ROB-0001'' [sample_robot] = [sample_robot]"
    by (simp add: staged_robots_def sample_robot_def)
  have b: "unique_current_facilities sample_facilities"
    by (simp add: unique_current_facilities_def sample_facilities_def)
  show ?thesis
    using robot_merge_one_current [OF a b] a b by blast
qed

text \<open>After the surgeon merge, a surgeon with one staged row and no current row has one
  more row: the staged row, current and with no expiration date.\<close>

theorem new_surgeon_inserted:
  assumes "staged_surgeons k staging = [s]"
      and "current_surgeons k tab = []"
  shows "\<exists>key. surgeon_rows k (fst (load_dimension_surgeons current_date staging tab))
                 = surgeon_rows k tab @ [new_surgeon_row s key]
               \<and> ds_is_current (new_surgeon_row s key) = Some True
               \<and> ds_expiration_date (new_surgeon_row s key) = None"
proof -
  note s = staged_member [OF assms(1)]
  let ?tab = "expire_surgeons current_date staging tab"
  have "ds_is_current r \<noteq> Some True" if "r \<in> set (surgeon_rows k tab)" for r
    using that assms(2) by (auto simp: current_surgeons_rows filter_empty_conv)
  then have keep: "\<not> sql_true (expire_surgeon_where staging r)" if "r \<in> set (surgeon_rows k tab)" for r
    using that by (simp add: expire_surgeon_where_true)
  have rows: "surgeon_rows k ?tab = surgeon_rows k tab"
    using keep by (simp add: surgeon_rows_expire map_idI)
  then have "current_surgeons k ?tab = []"
    using assms(2) by (simp add: current_surgeons_rows)
  then have "left_join (surgeon_join_on s) ?tab = [None]"
    using s by (simp add: left_join_def surgeon_join_matches)
  then have one: "surgeon_rows_of ?tab s = [new_surgeon_row s]"
    by (simp add: surgeon_rows_of_def surgeon_insert_where_def)
  have "list_all2 (\<lambda>mk r. \<exists>key. r = mk key) [new_surgeon_row s]
          (filter (\<lambda>r. ds_surgeon_id r = Some k)
             (assign_keys (next_key (map ds_surgeon_key ?tab)) (surgeons_to_insert staging ?tab)))"
    using inserted_rows_for_key [OF assms(1), of ?tab] one s by simp
  then obtain key where "filter (\<lambda>r. ds_surgeon_id r = Some k)
             (assign_keys (next_key (map ds_surgeon_key ?tab)) (surgeons_to_insert staging ?tab))
           = [new_surgeon_row s key]"
    by (auto simp: list_all2_Cons1)
  then have "surgeon_rows k (fst (load_dimension_surgeons current_date staging tab))
               = surgeon_rows k tab @ [new_surgeon_row s key]"
    using s rows by (auto simp: load_dimension_surgeons_def Let_def surgeon_rows_insert)
  then show ?thesis
    by (intro exI [of _ key]) (simp add: new_surgeon_row_def)
qed

theorem new_surgeon_inserted_witness:
  "staged_surgeons ''SURG-0001'' [sample_surgeon ''SURG-0001'' ''Dr. Smith'' 5]
     = [sample_surgeon ''SURG-0001'' ''Dr. Smith'' 5]
   \<and> current_surgeons ''SURG-0001'' [] = []
   \<and> (\<exists>key. surgeon_rows ''SURG-0001''
         (fst (load_dimension_surgeons 19500 [sample_surgeon ''SURG-0001'' ''Dr. Smith'' 5] []))
        = [new_surgeon_row (sample_surgeon ''SURG-0001'' ''Dr. Smith'' 5) key])"
proof -
  have a: "staged_surgeons ''SURG-0001'' [sample_surgeon ''SURG-0001'' ''Dr. Smith'' 5]
             = [sample_surgeon ''SURG-0001'' ''Dr. Smith'' 5]"
    by (simp add: staged_surgeons_def sample_surgeon_def)
  have b: "current_surgeons ''SURG-0001'' [] = []"
    by (simp add: current_surgeons_def)
  have "\<exists>key. surgeon_rows ''SURG-0001''
         (fst (load_dimension_surgeons 19500 [sample_surgeon ''SURG-0001'' ''Dr. Smith'' 5] []))
        = [new_surgeon_row (sample_surgeon ''SURG-0001'' ''Dr. Smith'' 5) key]"
    using new_surgeon_inserted [OF a b, of 19500] by (auto simp: surgeon_rows_def)
  with a b show ?thesis by (intro conjI)
qed

section \<open>The handlers: properties\<close>

text \<open>C6 at a failing input: a full run in which the surgeon load returns 12 and the
  robot load raises. The handler writes the status \<^verbatim>\<open>failed\<close>, the error and the count
  of the surgeons into \<^verbatim>\<open>results\<close>, and then raises: the caller gets the exception
  and no run result. The telemetry handler does the same.\<close>

theorem handler_raises_on_failure:
  "lambda_handler now (Some ''full'') (Returned 12) (Raised ''connection lost'') procedures =
     (\<lparr>r_status = ''failed'', r_timestamp = now, r_etl_type = ''full'',
       r_records_loaded = [''surgeons'' \<mapsto> 12], r_error = Some ''connection lost''\<rparr>,
      Raised ''connection lost'')
   \<and> telemetry_lambda_handler now batch_date (Raised ''connection lost'') =
     (\<lparr>tr_status = ''failed'', tr_timestamp = now, tr_batch_date = batch_date,
       tr_records_loaded = 0, tr_error = Some ''connection lost''\<rparr>,
      Raised ''connection lost'')"
  by (simp add: lambda_handler_def try_body_def load_dimensions_def set_loaded_def
                telemetry_lambda_handler_def)

end
